theory Spec2Isabelle
  imports Complex_Main
begin

section \<open>Errors\<close>

text \<open>The exceptions that the modelled Python code can raise.\<close>

datatype error = AssertionError | ZeroDivisionError | ValueError | IndexError | RuntimeError

section \<open>Padding of token sequences\<close>

text \<open>
  Python's \<open>seq[:n]\<close> for an integer \<open>n\<close>: a non-negative \<open>n\<close> keeps the first \<open>n\<close>
  elements, a negative \<open>n\<close> drops the last \<open>-n\<close> elements.
\<close>

definition slice_to :: "'a list \<Rightarrow> int \<Rightarrow> 'a list" where
  "slice_to seq n = (if 0 \<le> n then take (nat n) seq else take (length seq - nat (- n)) seq)"

text \<open>
  Python's \<open>[v] * n\<close>: the empty list for \<open>n \<le> 0\<close>.
\<close>

definition list_times :: "'a \<Rightarrow> int \<Rightarrow> 'a list" where
  "list_times v n = replicate (nat n) v"

text \<open>
  \<open>np.array\<close> on a list of rows: the rows of a rectangular nested list become the rows of
  the array; rows of different lengths are rejected (\<open>ValueError\<close>, inhomogeneous shape).
\<close>

definition np_array :: "'a list list \<Rightarrow> error + 'a list list" where
  "np_array rows =
     (case rows of
        [] \<Rightarrow> Inr []
      | r # rs \<Rightarrow> if list_all (\<lambda>s. length s = length r) rs then Inr rows else Inl ValueError)"

text \<open>
  \<^verbatim>\<open>
  def pad_sequences(sequences, maxlen, padding_value=0):
      return np.array([seq + [padding_value] * (maxlen - len(seq)) if len(seq) < maxlen
                       else seq[:maxlen] for seq in sequences])
  \<close>
\<close>

definition pad_row :: "int \<Rightarrow> int \<Rightarrow> int list \<Rightarrow> int list" where
  "pad_row maxlen padding_value seq =
     (if int (length seq) < maxlen
      then seq @ list_times padding_value (maxlen - int (length seq))
      else slice_to seq maxlen)"

definition pad_sequences :: "int list list \<Rightarrow> int \<Rightarrow> int \<Rightarrow> error + int list list" where
  "pad_sequences sequences maxlen padding_value =
     np_array (map (pad_row maxlen padding_value) sequences)"

section \<open>Greedy decoding\<close>

text \<open>
  \<open>torch.argmax\<close> along a row of scores: the index of the first maximal entry.
\<close>

fun argmax_from :: "nat \<Rightarrow> 'l::linorder \<Rightarrow> nat \<Rightarrow> 'l list \<Rightarrow> nat" where
  "argmax_from best bv i [] = best"
| "argmax_from best bv i (x # xs) =
     (if bv < x then argmax_from i x (Suc i) xs else argmax_from best bv (Suc i) xs)"

definition argmax :: "'l::linorder list \<Rightarrow> error + nat" where
  "argmax xs = (case xs of [] \<Rightarrow> Inl IndexError | x # ys \<Rightarrow> Inr (argmax_from 0 x 1 ys))"

text \<open>
  \<open>output[:, -1, :].argmax(dim=-1).item()\<close> on an output of shape (batch, length, vocabulary),
  held as a nested list: indexing position \<open>-1\<close> needs a non-empty length axis, \<open>argmax\<close> a
  non-empty vocabulary axis, and \<open>item()\<close> a single element, that is a batch of one.
\<close>

definition next_token :: "'l::linorder list list list \<Rightarrow> error + int" where
  "next_token output =
     (if list_ex (\<lambda>b. b = []) output then Inl IndexError
      else if list_ex (\<lambda>b. last b = []) output then Inl IndexError
      else (case output of
              [b] \<Rightarrow> (case argmax (last b) of Inl e \<Rightarrow> Inl e | Inr j \<Rightarrow> Inr (int j))
            | _ \<Rightarrow> Inl RuntimeError))"

text \<open>
  The loop of \<open>greedy_decode\<close>. The model is any callable taking the source and the target
  prefix (put in evaluation mode by \<open>model.eval()\<close> before the loop); it returns the output
  tensor or raises. \<open>i\<close> is the loop index of \<open>for _ in range(max_len)\<close>.
  \<^verbatim>\<open>
      for _ in range(max_len):
          output = model(src_sentence, tgt_sequence)
          next_token_id = output[:, -1, :].argmax(dim=-1).item()
          tgt_sequence = torch.cat([tgt_sequence, torch.tensor([[next_token_id]], ...)], dim=1)
          if next_token_id == end_token_id:
              break
  \<close>
\<close>

function decode_loop ::
  "('s \<Rightarrow> int list \<Rightarrow> error + 'l::linorder list list list) \<Rightarrow> 's \<Rightarrow> int \<Rightarrow> int \<Rightarrow>
     int \<Rightarrow> int list \<Rightarrow> error + int list" where
  "decode_loop model src_sentence max_len end_token_id i tgt_sequence =
     (if i < max_len then
        (case model src_sentence tgt_sequence of
           Inl e \<Rightarrow> Inl e
         | Inr output \<Rightarrow>
             (case next_token output of
                Inl e \<Rightarrow> Inl e
              | Inr next_token_id \<Rightarrow>
                  if next_token_id = end_token_id then Inr (tgt_sequence @ [next_token_id])
                  else decode_loop model src_sentence max_len end_token_id (i + 1)
                         (tgt_sequence @ [next_token_id])))
      else Inr tgt_sequence)"
  by pat_completeness auto
termination
  by (relation "measure (\<lambda>(model, src_sentence, max_len, end_token_id, i, tgt_sequence).
        nat (max_len - i))") auto

text \<open>
  \<^verbatim>\<open>
  def greedy_decode(model, src_sentence, max_len=50, start_token_id=2, end_token_id=3):
      tgt_sequence = torch.tensor([[start_token_id]], ...)
      ... the loop ...
      return tgt_sequence.squeeze(0).tolist()
  \<close>
\<close>

definition greedy_decode ::
  "('s \<Rightarrow> int list \<Rightarrow> error + 'l::linorder list list list) \<Rightarrow> 's \<Rightarrow> int \<Rightarrow> int \<Rightarrow>
     int \<Rightarrow> error + int list" where
  "greedy_decode model src_sentence max_len start_token_id end_token_id =
     decode_loop model src_sentence max_len end_token_id 0 [start_token_id]"

declare decode_loop.simps [simp del]

subsection \<open>Two fixed models for concrete runs\<close>

text \<open>
  Over the vocabulary \<open>{0, 1, 2, 3}\<close> (PAD, UNK, BOS, EOS): a model whose scores always
  peak at EOS, and one whose scores always peak at token 1.
\<close>

definition always_eos_model :: "unit \<Rightarrow> int list \<Rightarrow> error + real list list list" where
  "always_eos_model src tgt = Inr [map (\<lambda>t. [0, 0, 0, 1]) tgt]"

definition never_eos_model :: "unit \<Rightarrow> int list \<Rightarrow> error + real list list list" where
  "never_eos_model src tgt = Inr [map (\<lambda>t. [0, 1, 0, 0]) tgt]"

text \<open>
  The tokens \<open>gen\<close> are what a run of the loop appends to \<open>tgt\<close>: each one is the token
  read off the model's output for the prefix before it, and none but the last is the end
  token.
\<close>

definition generated ::
  "('s \<Rightarrow> int list \<Rightarrow> error + 'l::linorder list list list) \<Rightarrow> 's \<Rightarrow> int \<Rightarrow> int list \<Rightarrow>
     int list \<Rightarrow> bool" where
  "generated model src e tgt gen \<longleftrightarrow>
     (\<forall>k<length gen. \<exists>out. model src (tgt @ take k gen) = Inr out \<and> next_token out = Inr (gen ! k)) \<and>
     (\<forall>k. Suc k < length gen \<longrightarrow> gen ! k \<noteq> e)"

section \<open>Tensors\<close>

text \<open>
  A tensor is its shape and its entries, read by index (one index per dimension). The
  floating-point entries of the program are modelled as real numbers; token ids are
  integers. Entries outside the shape are never read.
\<close>

record 'a tensor =
  shape :: "nat list"
  elem :: "nat list \<Rightarrow> 'a"

definition numel :: "nat list \<Rightarrow> nat" where
  "numel s = prod_list s"

text \<open>The indices of a shape, in row-major order.\<close>

fun indices :: "nat list \<Rightarrow> nat list list" where
  "indices [] = [[]]"
| "indices (n # ns) = concat (map (\<lambda>i. map ((#) i) (indices ns)) [0..<n])"

definition valid_index :: "nat list \<Rightarrow> nat list \<Rightarrow> bool" where
  "valid_index s idx \<longleftrightarrow> list_all2 (<) idx s"

definition and_then :: "error + 'a \<Rightarrow> ('a \<Rightarrow> error + 'b) \<Rightarrow> error + 'b" where
  "and_then m f = (case m of Inl e \<Rightarrow> Inl e | Inr x \<Rightarrow> f x)"

subsection \<open>Broadcasting\<close>

text \<open>
  Two shapes are aligned at their last dimension; two sizes are compatible when they are
  equal or one of them is 1, and the size 1 is stretched.
\<close>

fun broadcast_rev :: "nat list \<Rightarrow> nat list \<Rightarrow> error + nat list" where
  "broadcast_rev [] ys = Inr ys"
| "broadcast_rev (x # xs) [] = Inr (x # xs)"
| "broadcast_rev (x # xs) (y # ys) =
     (if x = y \<or> x = 1 \<or> y = 1
      then and_then (broadcast_rev xs ys) (\<lambda>zs. Inr ((if x = 1 then y else x) # zs))
      else Inl RuntimeError)"

definition broadcast_shapes :: "nat list \<Rightarrow> nat list \<Rightarrow> error + nat list" where
  "broadcast_shapes s1 s2 = and_then (broadcast_rev (rev s1) (rev s2)) (\<lambda>zs. Inr (rev zs))"

text \<open>The index into a tensor of shape \<open>s\<close> that an index of the broadcast result reads.\<close>

definition bproj :: "nat list \<Rightarrow> nat list \<Rightarrow> nat list" where
  "bproj s idx = map2 (\<lambda>n i. if n = 1 then 0 else i) s (drop (length idx - length s) idx)"

definition tensor_add :: "real tensor \<Rightarrow> real tensor \<Rightarrow> error + real tensor" where
  "tensor_add a b =
     and_then (broadcast_shapes (shape a) (shape b)) (\<lambda>s.
       Inr \<lparr>shape = s, elem = (\<lambda>idx. elem a (bproj (shape a) idx) + elem b (bproj (shape b) idx))\<rparr>)"

definition div_scalar :: "real tensor \<Rightarrow> real \<Rightarrow> real tensor" where
  "div_scalar t c = \<lparr>shape = shape t, elem = (\<lambda>idx. elem t idx / c)\<rparr>"

definition eq_scalar :: "real tensor \<Rightarrow> real \<Rightarrow> bool tensor" where
  "eq_scalar t c = \<lparr>shape = shape t, elem = (\<lambda>idx. elem t idx = c)\<rparr>"

text \<open>\<open>self.masked_fill(mask, value)\<close>: \<open>self\<close> and \<open>mask\<close> are broadcast together.\<close>

definition masked_fill :: "real tensor \<Rightarrow> bool tensor \<Rightarrow> real \<Rightarrow> error + real tensor" where
  "masked_fill self msk v =
     and_then (broadcast_shapes (shape self) (shape msk)) (\<lambda>s.
       Inr \<lparr>shape = s,
            elem = (\<lambda>idx. if elem msk (bproj (shape msk) idx) then v
                        else elem self (bproj (shape self) idx))\<rparr>)"

subsection \<open>Dimensions, transposition, matrix product\<close>

text \<open>
  A dimension argument \<open>d\<close> of a tensor of rank \<open>r\<close> counts from the end when negative;
  outside \<open>-r \<le> d < r\<close> it is an \<open>IndexError\<close>.
\<close>

definition norm_dim :: "nat \<Rightarrow> int \<Rightarrow> error + nat" where
  "norm_dim r d =
     (if - int r \<le> d \<and> d < int r then Inr (nat (if d < 0 then d + int r else d))
      else Inl IndexError)"

definition size_dim :: "'a tensor \<Rightarrow> int \<Rightarrow> error + nat" where
  "size_dim t d = and_then (norm_dim (length (shape t)) d) (\<lambda>i. Inr (shape t ! i))"

definition swap :: "nat \<Rightarrow> nat \<Rightarrow> 'b list \<Rightarrow> 'b list" where
  "swap i j xs = xs[i := xs ! j, j := xs ! i]"

definition transpose_dims :: "int \<Rightarrow> int \<Rightarrow> 'a tensor \<Rightarrow> error + 'a tensor" where
  "transpose_dims d0 d1 t =
     and_then (norm_dim (length (shape t)) d0) (\<lambda>i.
     and_then (norm_dim (length (shape t)) d1) (\<lambda>j.
       Inr \<lparr>shape = swap i j (shape t), elem = (\<lambda>idx. elem t (swap i j idx))\<rparr>))"

text \<open>
  The product of two tensors of rank at least 2: a matrix product over the last two
  dimensions, the leading (batch) dimensions broadcast.
\<close>

definition matmul_batched :: "real tensor \<Rightarrow> real tensor \<Rightarrow> error + real tensor" where
  "matmul_batched a b =
     (let ra = length (shape a); rb = length (shape b);
          ba = take (ra - 2) (shape a); bb = take (rb - 2) (shape b);
          n = shape a ! (ra - 2); m = shape a ! (ra - 1);
          m' = shape b ! (rb - 2); p = shape b ! (rb - 1)
      in if m \<noteq> m' then Inl RuntimeError
         else and_then (broadcast_shapes ba bb) (\<lambda>bs.
           Inr \<lparr>shape = bs @ [n, p],
                elem = (\<lambda>idx. let bi = take (length bs) idx;
                               i = idx ! length bs; j = idx ! (length bs + 1)
                           in (\<Sum>k\<leftarrow>[0..<m]. elem a (bproj ba bi @ [i, k]) *
                                              elem b (bproj bb bi @ [k, j])))\<rparr>))"

text \<open>
  \<open>torch.matmul\<close>: an argument of rank 1 is given a dimension of size 1 (in front for the
  first argument, at the end for the second), which is removed from the result; an
  argument of rank 0 is an error.
\<close>

definition matmul :: "real tensor \<Rightarrow> real tensor \<Rightarrow> error + real tensor" where
  "matmul a b =
     (let ra = length (shape a); rb = length (shape b)
      in if ra = 0 \<or> rb = 0 then Inl RuntimeError
         else
           and_then
             (matmul_batched
                (if ra = 1 then \<lparr>shape = 1 # shape a, elem = (\<lambda>idx. elem a (tl idx))\<rparr> else a)
                (if rb = 1 then \<lparr>shape = shape b @ [1], elem = (\<lambda>idx. elem b (butlast idx))\<rparr> else b))
             (\<lambda>c.
                let c1 = (if rb = 1
                          then \<lparr>shape = butlast (shape c), elem = (\<lambda>idx. elem c (idx @ [0]))\<rparr>
                          else c);
                    r1 = length (shape c1);
                    k = (if rb = 1 then r1 - 1 else r1 - 2)
                in Inr (if ra = 1
                        then \<lparr>shape = take k (shape c1) @ drop (Suc k) (shape c1),
                              elem = (\<lambda>idx. elem c1 (take k idx @ [0] @ drop k idx))\<rparr>
                        else c1)))"

text \<open>
  \<open>torch.softmax(t, dim=-1)\<close>: every entry is its exponential divided by the sum of the
  exponentials along the last dimension.
\<close>

definition softmax_last :: "real tensor \<Rightarrow> real tensor" where
  "softmax_last t =
     (if shape t = [] then \<lparr>shape = [], elem = (\<lambda>idx. 1)\<rparr>
      else \<lparr>shape = shape t,
            elem = (\<lambda>idx. exp (elem t idx) /
                        (\<Sum>j\<leftarrow>[0..<last (shape t)]. exp (elem t (butlast idx @ [j]))))\<rparr>)"

section \<open>Attention\<close>

text \<open>
  \<^verbatim>\<open>
  class ScaledDotProductAttention(nn.Module):
      def forward(self, query, key, value, mask=None):
          d_k = query.size(-1)
          scores = torch.matmul(query, key.transpose(-2, -1)) / np.sqrt(d_k)
          if mask is not None:
              scores = scores.masked_fill(mask == 0, -1e9)
          attention = torch.softmax(scores, dim=-1)
          output = torch.matmul(attention, value)
          return output, attention
  \<close>
  For vectors of size \<open>d_k = 0\<close> the source divides the scores, all 0, by \<open>0.0\<close>: they are
  not numbers then, a value that the real numbers do not have. The definition describes the
  source for \<open>d_k \<ge> 1\<close> only, and the properties of the attention weights below are stated
  for \<open>d_k \<ge> 1\<close>; the attention of the Transformer has \<open>d_k = head_dim \<ge> 1\<close>.
\<close>

definition ScaledDotProductAttention_forward ::
  "real tensor \<Rightarrow> real tensor \<Rightarrow> real tensor \<Rightarrow> real tensor option \<Rightarrow>
     error + real tensor \<times> real tensor" where
  "ScaledDotProductAttention_forward query key value msk =
     and_then (size_dim query (-1)) (\<lambda>d_k.
     and_then (transpose_dims (-2) (-1) key) (\<lambda>key_t.
     and_then (matmul query key_t) (\<lambda>qk.
     and_then (case msk of
                 None \<Rightarrow> Inr (div_scalar qk (sqrt (real d_k)))
               | Some m \<Rightarrow> masked_fill (div_scalar qk (sqrt (real d_k))) (eq_scalar m 0)
                            (- 1000000000)) (\<lambda>scores.
     let attention = softmax_last scores
     in and_then (matmul attention value) (\<lambda>output. Inr (output, attention))))))"

subsection \<open>The scores, entry by entry\<close>

text \<open>
  The scaled and masked score of query position \<open>i\<close> and key position \<open>j\<close> in batch entry
  \<open>b\<close>, written as in the specification: the dot product of the query and key vectors
  divided by \<open>\<surd>d\<close>, replaced by \<open>-10\<^sup>9\<close> where the mask entry is zero.
\<close>

definition masked_out :: "real tensor option \<Rightarrow> nat list \<Rightarrow> bool" where
  "masked_out msk idx = (case msk of None \<Rightarrow> False | Some m \<Rightarrow> elem m (bproj (shape m) idx) = 0)"

definition scaled_score :: "real tensor \<Rightarrow> real tensor \<Rightarrow> nat \<Rightarrow> nat list \<Rightarrow> nat \<Rightarrow> nat \<Rightarrow> real" where
  "scaled_score query key d b i j =
     (\<Sum>c<d. elem query (b @ [i, c]) * elem key (b @ [j, c])) / sqrt (real d)"

definition masked_score ::
  "real tensor \<Rightarrow> real tensor \<Rightarrow> real tensor option \<Rightarrow> nat \<Rightarrow> nat list \<Rightarrow> nat \<Rightarrow> nat \<Rightarrow> real" where
  "masked_score query key msk d b i j =
     (if masked_out msk (b @ [i, j]) then - 1000000000 else scaled_score query key d b i j)"

text \<open>A mask fits scores of shape \<open>s\<close> when broadcasting it against \<open>s\<close> gives \<open>s\<close>.\<close>

definition mask_fits :: "real tensor option \<Rightarrow> nat list \<Rightarrow> bool" where
  "mask_fits msk s = (case msk of None \<Rightarrow> True | Some m \<Rightarrow> broadcast_shapes s (shape m) = Inr s)"

text \<open>A matrix given by its rows, as a tensor of rank 2.\<close>

definition matrix :: "'a list list \<Rightarrow> 'a tensor" where
  "matrix rows = \<lparr>shape = [length rows, length (hd rows)],
                  elem = (\<lambda>idx. rows ! (idx ! 0) ! (idx ! 1))\<rparr>"

section \<open>Linear layers and multi-head attention\<close>

text \<open>
  Freshly constructed layers hold random parameters. The initial entries of every parameter
  tensor are an argument of the constructors: \<open>inits k\<close> gives the entries of the \<open>k\<close>-th
  parameter tensor that a constructor creates.

  \<open>nn.Linear(in_features, out_features)\<close> allocates a weight of shape
  \<open>(out_features, in_features)\<close> and a bias of shape \<open>(out_features)\<close>; a negative size is
  rejected when the tensor is allocated.
\<close>

record Linear =
  in_features :: nat
  out_features :: nat
  lin_weight :: "real tensor"
  lin_bias :: "real tensor"

definition nn_Linear :: "(nat \<Rightarrow> nat list \<Rightarrow> real) \<Rightarrow> int \<Rightarrow> int \<Rightarrow> error + Linear" where
  "nn_Linear inits in_f out_f =
     (if in_f < 0 \<or> out_f < 0 then Inl RuntimeError
      else Inr \<lparr>in_features = nat in_f, out_features = nat out_f,
                lin_weight = \<lparr>shape = [nat out_f, nat in_f], elem = inits 0\<rparr>,
                lin_bias = \<lparr>shape = [nat out_f], elem = inits 1\<rparr>\<rparr>)"

text \<open>
  \<^verbatim>\<open>
  class MultiHeadAttention(nn.Module):
      def __init__(self, embed_size, num_heads):
          assert embed_size % num_heads == 0, "Embedding size must be divisible by ..."
          self.num_heads = num_heads
          self.head_dim = embed_size // num_heads
          self.query_linear = nn.Linear(embed_size, embed_size)
          self.key_linear = nn.Linear(embed_size, embed_size)
          self.value_linear = nn.Linear(embed_size, embed_size)
          self.fc_out = nn.Linear(embed_size, embed_size)
  \<close>
  Python's \<open>%\<close> and \<open>//\<close> on integers are \<open>mod\<close> and \<open>div\<close> on \<open>int\<close> (the remainder takes
  the sign of the divisor); a zero divisor raises \<open>ZeroDivisionError\<close>.
\<close>

record MultiHeadAttention =
  num_heads :: int
  head_dim :: int
  query_linear :: Linear
  key_linear :: Linear
  value_linear :: Linear
  mha_fc_out :: Linear

definition MultiHeadAttention_init ::
  "(nat \<Rightarrow> nat list \<Rightarrow> real) \<Rightarrow> int \<Rightarrow> int \<Rightarrow> error + MultiHeadAttention" where
  "MultiHeadAttention_init inits embed_size n_heads =
     (if n_heads = 0 then Inl ZeroDivisionError
      else if embed_size mod n_heads \<noteq> 0 then Inl AssertionError
      else
        and_then (nn_Linear inits embed_size embed_size) (\<lambda>q.
        and_then (nn_Linear (\<lambda>k. inits (k + 2)) embed_size embed_size) (\<lambda>k.
        and_then (nn_Linear (\<lambda>k. inits (k + 4)) embed_size embed_size) (\<lambda>v.
        and_then (nn_Linear (\<lambda>k. inits (k + 6)) embed_size embed_size) (\<lambda>out.
          Inr \<lparr>num_heads = n_heads, head_dim = embed_size div n_heads,
               query_linear = q, key_linear = k, value_linear = v, mha_fc_out = out\<rparr>)))))"

section \<open>Positional encoding\<close>

definition zeros :: "nat list \<Rightarrow> real tensor" where
  "zeros s = \<lparr>shape = s, elem = (\<lambda>idx. 0)\<rparr>"

text \<open>\<open>torch.arange(0, n, step)\<close> for a positive step: the values \<open>0, step, 2 step, ...\<close> below \<open>n\<close>.\<close>

definition arange :: "nat \<Rightarrow> nat \<Rightarrow> real tensor" where
  "arange n step = \<lparr>shape = [(n + step - 1) div step], elem = (\<lambda>idx. real (idx ! 0 * step))\<rparr>"

definition unsqueeze :: "nat \<Rightarrow> 'a tensor \<Rightarrow> 'a tensor" where
  "unsqueeze k t =
     \<lparr>shape = take k (shape t) @ [1] @ drop k (shape t),
      elem = (\<lambda>idx. elem t (take k idx @ drop (Suc k) idx))\<rparr>"

definition tensor_map :: "(real \<Rightarrow> real) \<Rightarrow> real tensor \<Rightarrow> real tensor" where
  "tensor_map f t = \<lparr>shape = shape t, elem = (\<lambda>idx. f (elem t idx))\<rparr>"

definition tensor_mul :: "real tensor \<Rightarrow> real tensor \<Rightarrow> error + real tensor" where
  "tensor_mul a b =
     and_then (broadcast_shapes (shape a) (shape b)) (\<lambda>s.
       Inr \<lparr>shape = s, elem = (\<lambda>idx. elem a (bproj (shape a) idx) * elem b (bproj (shape b) idx))\<rparr>)"

text \<open>
  \<open>t[:, start::2] = rhs\<close> on a tensor of rank 2: the right-hand side must expand to the shape
  of the selected columns (equal sizes, or size 1 on the right).
\<close>

definition assign_columns :: "nat \<Rightarrow> real tensor \<Rightarrow> real tensor \<Rightarrow> error + real tensor" where
  "assign_columns start t rhs =
     (let rows = shape t ! 0; cols = shape t ! 1;
          selected = [rows, (cols + 1 - start) div 2]
      in if broadcast_shapes selected (shape rhs) = Inr selected
         then Inr \<lparr>shape = shape t,
                   elem = (\<lambda>idx. if start \<le> idx ! 1 \<and> (idx ! 1 - start) mod 2 = 0
                                  then elem rhs (bproj (shape rhs) [idx ! 0, (idx ! 1 - start) div 2])
                                  else elem t idx)\<rparr>
         else Inl RuntimeError)"

text \<open>
  \<^verbatim>\<open>
  class PositionalEncoding(nn.Module):
      def __init__(self, embed_size, max_len=1000):
          pe = torch.zeros(max_len, embed_size)
          position = torch.arange(0, max_len, dtype=torch.float).unsqueeze(1)
          div_term = torch.exp(torch.arange(0, embed_size, 2).float()
                               * (-np.log(10000.0) / embed_size))
          pe[:, 0::2] = torch.sin(position * div_term)
          pe[:, 1::2] = torch.cos(position * div_term)
          self.register_buffer("pe", pe.unsqueeze(0))
  \<close>
  The table is a buffer, not a parameter: no initial values and no optimizer step reach it.
\<close>

record PositionalEncoding =
  pe :: "real tensor"

definition PositionalEncoding_init :: "int \<Rightarrow> int \<Rightarrow> error + PositionalEncoding" where
  "PositionalEncoding_init embed_size max_len =
     (if max_len < 0 \<or> embed_size < 0 then Inl RuntimeError
      else
        let pe0 = zeros [nat max_len, nat embed_size];
            position = unsqueeze 1 (arange (nat max_len) 1);
            div_term = tensor_map exp
              (tensor_map (\<lambda>x. x * (- ln 10000 / real_of_int embed_size))
                 (arange (nat embed_size) 2))
        in and_then (tensor_mul position div_term) (\<lambda>angles.
           and_then (assign_columns 0 pe0 (tensor_map sin angles)) (\<lambda>pe1.
           and_then (assign_columns 1 pe1 (tensor_map cos angles)) (\<lambda>pe2.
             Inr \<lparr>pe = unsqueeze 0 pe2\<rparr>))))"

text \<open>
  \<^verbatim>\<open>
      def forward(self, x):
          return x + self.pe[:, :x.size(1), :].to(x.device)
  \<close>
  The slice \<open>[:, :n, :]\<close> keeps the first \<open>n\<close> positions, all of them when there are fewer.
\<close>

definition slice_positions :: "nat \<Rightarrow> real tensor \<Rightarrow> real tensor" where
  "slice_positions n t = \<lparr>shape = (shape t)[1 := min n (shape t ! 1)], elem = elem t\<rparr>"

definition PositionalEncoding_forward :: "PositionalEncoding \<Rightarrow> real tensor \<Rightarrow> error + real tensor" where
  "PositionalEncoding_forward P x =
     and_then (size_dim x 1) (\<lambda>n. tensor_add x (slice_positions n (pe P)))"

section \<open>The layers of the Transformer\<close>

subsection \<open>Reshaping\<close>

text \<open>
  \<open>t.view(sizes)\<close> reads the entries of \<open>t\<close> in row-major order under a new shape. At most
  one size may be \<open>-1\<close>; it is inferred from the number of entries, and cannot be inferred
  when the other sizes multiply to 0. (Every tensor viewed in this program is contiguous:
  the transposed attention output is made so by \<open>contiguous()\<close> before it is viewed.)
\<close>

definition ravel :: "nat list \<Rightarrow> nat list \<Rightarrow> nat" where
  "ravel s idx = foldl (\<lambda>acc (n, i). acc * n + i) 0 (zip s idx)"

fun unravel :: "nat list \<Rightarrow> nat \<Rightarrow> nat list" where
  "unravel [] k = []"
| "unravel (n # ns) k = (k div numel ns) # unravel ns (k mod numel ns)"

definition reshaped :: "nat list \<Rightarrow> 'a tensor \<Rightarrow> 'a tensor" where
  "reshaped s t = \<lparr>shape = s, elem = (\<lambda>idx. elem t (unravel (shape t) (ravel s idx)))\<rparr>"

definition view :: "int list \<Rightarrow> 'a tensor \<Rightarrow> error + 'a tensor" where
  "view sizes t =
     (let n = numel (shape t);
          newsize = prod_list (map nat (filter (\<lambda>s. 0 \<le> s) sizes));
          infer = list_ex (\<lambda>s. s = - 1) sizes
      in if 1 < length (filter (\<lambda>s. s = - 1) sizes) \<or> list_ex (\<lambda>s. s < - 1) sizes
         then Inl RuntimeError
         else if n = newsize \<or> (infer \<and> 0 < newsize \<and> n mod newsize = 0)
         then (if infer
               then (if newsize = 0 then Inl RuntimeError
                     else Inr (reshaped (map (\<lambda>s. if s = - 1 then n div newsize else nat s) sizes) t))
               else Inr (reshaped (map nat sizes) t))
         else Inl RuntimeError)"

subsection \<open>Linear, layer normalisation, dropout, feed-forward\<close>

text \<open>\<open>nn.Linear\<close> applied to \<open>x\<close> of shape \<open>(..., in_features)\<close>: \<open>x W\<^sup>T + b\<close>.\<close>

definition Linear_forward :: "Linear \<Rightarrow> real tensor \<Rightarrow> error + real tensor" where
  "Linear_forward l x =
     (if shape x = [] \<or> last (shape x) \<noteq> in_features l then Inl RuntimeError
      else Inr \<lparr>shape = butlast (shape x) @ [out_features l],
                elem = (\<lambda>idx. (\<Sum>k\<leftarrow>[0..<in_features l].
                                  elem x (butlast idx @ [k]) * elem (lin_weight l) [last idx, k]) +
                               elem (lin_bias l) [last idx])\<rparr>)"

text \<open>
  \<open>nn.LayerNorm(n)\<close>: weight 1, bias 0, \<open>eps = 10\<^sup>-\<^sup>5\<close>; every vector along the last dimension
  is shifted to mean 0 and scaled to variance 1, then scaled and shifted by weight and bias.
\<close>

record LayerNorm =
  normalized_size :: nat
  ln_weight :: "real tensor"
  ln_bias :: "real tensor"
  ln_eps :: real

definition nn_LayerNorm :: "int \<Rightarrow> error + LayerNorm" where
  "nn_LayerNorm n =
     (if n < 0 then Inl RuntimeError
      else Inr \<lparr>normalized_size = nat n, ln_weight = \<lparr>shape = [nat n], elem = (\<lambda>idx. 1)\<rparr>,
                ln_bias = zeros [nat n], ln_eps = 1 / 100000\<rparr>)"

definition LayerNorm_forward :: "LayerNorm \<Rightarrow> real tensor \<Rightarrow> error + real tensor" where
  "LayerNorm_forward lnorm x =
     (if shape x = [] \<or> last (shape x) \<noteq> normalized_size lnorm then Inl RuntimeError
      else Inr \<lparr>shape = shape x,
                elem = (\<lambda>idx.
                  let n = normalized_size lnorm;
                      mean = (\<Sum>k\<leftarrow>[0..<n]. elem x (butlast idx @ [k])) / real n;
                      var = (\<Sum>k\<leftarrow>[0..<n]. (elem x (butlast idx @ [k]) - mean)\<^sup>2) / real n
                  in (elem x idx - mean) / sqrt (var + ln_eps lnorm) * elem (ln_weight lnorm) [last idx] +
                     elem (ln_bias lnorm) [last idx])\<rparr>)"

text \<open>
  \<open>nn.Dropout(p)\<close> needs \<open>0 \<le> p \<le> 1\<close>. In training mode every entry is kept with probability
  \<open>1 - p\<close> and scaled by \<open>1 / (1 - p)\<close>, or set to 0; the random choice is the argument
  \<open>keep\<close>. In evaluation mode the input is returned.
\<close>

definition nn_Dropout :: "real \<Rightarrow> error + real" where
  "nn_Dropout p = (if p < 0 \<or> 1 < p then Inl ValueError else Inr p)"

definition dropout :: "real \<Rightarrow> bool \<Rightarrow> (nat list \<Rightarrow> bool) \<Rightarrow> real tensor \<Rightarrow> real tensor" where
  "dropout p train keep x =
     (if train
      then \<lparr>shape = shape x, elem = (\<lambda>idx. if keep idx \<and> p < 1 then elem x idx / (1 - p) else 0)\<rparr>
      else x)"

text \<open>
  \<^verbatim>\<open>
  class FeedForward(nn.Module):
      def __init__(self, embed_size, ff_hidden_size, dropout=0.1):
          self.linear1 = nn.Linear(embed_size, ff_hidden_size)
          self.dropout = nn.Dropout(dropout)
          self.linear2 = nn.Linear(ff_hidden_size, embed_size)
      def forward(self, x):
          return self.linear2(self.dropout(torch.relu(self.linear1(x))))
  \<close>
\<close>

record FeedForward =
  linear1 :: Linear
  ff_dropout :: real
  linear2 :: Linear

definition FeedForward_init ::
  "(nat \<Rightarrow> nat list \<Rightarrow> real) \<Rightarrow> int \<Rightarrow> int \<Rightarrow> real \<Rightarrow> error + FeedForward" where
  "FeedForward_init inits embed_size ff_hidden_size p =
     and_then (nn_Linear inits embed_size ff_hidden_size) (\<lambda>l1.
     and_then (nn_Dropout p) (\<lambda>d.
     and_then (nn_Linear (\<lambda>k. inits (k + 2)) ff_hidden_size embed_size) (\<lambda>l2.
       Inr \<lparr>linear1 = l1, ff_dropout = d, linear2 = l2\<rparr>)))"

definition FeedForward_forward ::
  "FeedForward \<Rightarrow> bool \<Rightarrow> (nat list \<Rightarrow> bool) \<Rightarrow> real tensor \<Rightarrow> error + real tensor" where
  "FeedForward_forward f train keep x =
     and_then (Linear_forward (linear1 f) x) (\<lambda>h.
       Linear_forward (linear2 f) (dropout (ff_dropout f) train keep (tensor_map (max 0) h)))"

subsection \<open>Multi-head attention\<close>

text \<open>
  \<^verbatim>\<open>
      def forward(self, query, key, value, mask=None):
          batch_size = query.size(0)
          query = self.query_linear(query)
          key = self.key_linear(key)
          value = self.value_linear(value)
          query = query.view(batch_size, -1, self.num_heads, self.head_dim).transpose(1, 2)
          key = key.view(batch_size, -1, self.num_heads, self.head_dim).transpose(1, 2)
          value = value.view(batch_size, -1, self.num_heads, self.head_dim).transpose(1, 2)
          attention_output, _ = ScaledDotProductAttention()(query, key, value, mask)
          attention_output = attention_output.transpose(1, 2).contiguous()
          attention_output = attention_output.view(batch_size, -1, self.num_heads * self.head_dim)
          output = self.fc_out(attention_output)
          return output
  \<close>
\<close>

definition MultiHeadAttention_forward ::
  "MultiHeadAttention \<Rightarrow> real tensor \<Rightarrow> real tensor \<Rightarrow> real tensor \<Rightarrow> real tensor option \<Rightarrow>
     error + real tensor" where
  "MultiHeadAttention_forward m query key value msk =
     and_then (size_dim query 0) (\<lambda>batch_size.
     and_then (Linear_forward (query_linear m) query) (\<lambda>q.
     and_then (Linear_forward (key_linear m) key) (\<lambda>k.
     and_then (Linear_forward (value_linear m) value) (\<lambda>v.
     and_then (and_then (view [int batch_size, - 1, num_heads m, head_dim m] q)
                 (transpose_dims 1 2)) (\<lambda>q.
     and_then (and_then (view [int batch_size, - 1, num_heads m, head_dim m] k)
                 (transpose_dims 1 2)) (\<lambda>k.
     and_then (and_then (view [int batch_size, - 1, num_heads m, head_dim m] v)
                 (transpose_dims 1 2)) (\<lambda>v.
     and_then (ScaledDotProductAttention_forward q k v msk) (\<lambda>(attention_output, weights).
     and_then (transpose_dims 1 2 attention_output) (\<lambda>a.
     and_then (view [int batch_size, - 1, num_heads m * head_dim m] a) (\<lambda>a.
       Linear_forward (mha_fc_out m) a))))))))))"

subsection \<open>Transformer block\<close>

text \<open>
  \<^verbatim>\<open>
  class TransformerBlock(nn.Module):
      def __init__(self, embed_size, num_heads, ff_hidden_size, dropout):
          self.attention = MultiHeadAttention(embed_size, num_heads)
          self.norm1 = nn.LayerNorm(embed_size)
          self.norm2 = nn.LayerNorm(embed_size)
          self.feed_forward = FeedForward(embed_size, ff_hidden_size, dropout)
          self.dropout = nn.Dropout(dropout)
      def forward(self, query, key, value, mask):
          attention_output = self.attention(query, key, value, mask)
          x = self.norm1(query + self.dropout(attention_output))
          ff_output = self.feed_forward(x)
          return self.norm2(x + self.dropout(ff_output))
  \<close>
  A block draws three dropout masks per call, \<open>rng 0\<close>, \<open>rng 1\<close> and \<open>rng 2\<close>, in this order.
  The fields \<open>attention\<close> and \<open>dropout\<close> are named \<open>blk_attention\<close> and \<open>blk_dropout\<close> here.
\<close>

record TransformerBlock =
  blk_attention :: MultiHeadAttention
  norm1 :: LayerNorm
  norm2 :: LayerNorm
  feed_forward :: FeedForward
  blk_dropout :: real

definition TransformerBlock_init ::
  "(nat \<Rightarrow> nat list \<Rightarrow> real) \<Rightarrow> int \<Rightarrow> int \<Rightarrow> int \<Rightarrow> real \<Rightarrow> error + TransformerBlock" where
  "TransformerBlock_init inits embed_size n_heads ff_hidden_size p =
     and_then (MultiHeadAttention_init inits embed_size n_heads) (\<lambda>a.
     and_then (nn_LayerNorm embed_size) (\<lambda>n1.
     and_then (nn_LayerNorm embed_size) (\<lambda>n2.
     and_then (FeedForward_init (\<lambda>k. inits (k + 8)) embed_size ff_hidden_size p) (\<lambda>f.
     and_then (nn_Dropout p) (\<lambda>d.
       Inr \<lparr>blk_attention = a, norm1 = n1, norm2 = n2, feed_forward = f, blk_dropout = d\<rparr>)))))"

definition TransformerBlock_forward ::
  "TransformerBlock \<Rightarrow> bool \<Rightarrow> (nat \<Rightarrow> nat list \<Rightarrow> bool) \<Rightarrow> real tensor \<Rightarrow> real tensor \<Rightarrow>
     real tensor \<Rightarrow> real tensor option \<Rightarrow> error + real tensor" where
  "TransformerBlock_forward blk train rng query key value msk =
     and_then (MultiHeadAttention_forward (blk_attention blk) query key value msk) (\<lambda>attention_output.
     and_then (tensor_add query (dropout (blk_dropout blk) train (rng 0) attention_output)) (\<lambda>s1.
     and_then (LayerNorm_forward (norm1 blk) s1) (\<lambda>x.
     and_then (FeedForward_forward (feed_forward blk) train (rng 1) x) (\<lambda>ff_output.
     and_then (tensor_add x (dropout (blk_dropout blk) train (rng 2) ff_output)) (\<lambda>s2.
       LayerNorm_forward (norm2 blk) s2)))))"

section \<open>The Transformer\<close>

text \<open>
  \<open>nn.Embedding(n, d)\<close> holds a table of shape \<open>(n, d)\<close>; applied to a tensor of token ids it
  looks every id up, and an id outside \<open>0 \<le> id < n\<close> is an \<open>IndexError\<close>.
\<close>

record Embedding =
  num_embeddings :: nat
  embedding_dim :: nat
  emb_weight :: "real tensor"

definition nn_Embedding :: "(nat list \<Rightarrow> real) \<Rightarrow> int \<Rightarrow> int \<Rightarrow> error + Embedding" where
  "nn_Embedding init n d =
     (if n < 0 \<or> d < 0 then Inl RuntimeError
      else Inr \<lparr>num_embeddings = nat n, embedding_dim = nat d,
                emb_weight = \<lparr>shape = [nat n, nat d], elem = init\<rparr>\<rparr>)"

definition Embedding_forward :: "Embedding \<Rightarrow> int tensor \<Rightarrow> error + real tensor" where
  "Embedding_forward e ids =
     (if list_ex (\<lambda>idx. elem ids idx < 0 \<or> int (num_embeddings e) \<le> elem ids idx)
           (indices (shape ids))
      then Inl IndexError
      else Inr \<lparr>shape = shape ids @ [embedding_dim e],
                elem = (\<lambda>idx. elem (emb_weight e) [nat (elem ids (butlast idx)), last idx])\<rparr>)"

text \<open>
  \<^verbatim>\<open>
  class Transformer(nn.Module):
      def __init__(self, src_vocab_size, tgt_vocab_size, embed_size, num_heads, num_layers,
                   ff_hidden_size, dropout=0.1):
          self.src_embedding = nn.Embedding(src_vocab_size, embed_size)
          self.tgt_embedding = nn.Embedding(tgt_vocab_size, embed_size)
          self.positional_encoding = PositionalEncoding(embed_size)
          self.encoder_layers = nn.ModuleList([
              TransformerBlock(embed_size, num_heads, ff_hidden_size, dropout)
              for _ in range(num_layers)])
          self.decoder_layers = nn.ModuleList([
              TransformerBlock(embed_size, num_heads, ff_hidden_size, dropout)
              for _ in range(num_layers)])
          self.fc_out = nn.Linear(embed_size, tgt_vocab_size)
  \<close>
  A block has 12 parameter tensors with initial values (8 in the attention, 4 in the
  feed-forward). A new module is in training mode.
\<close>

record Transformer =
  src_embedding :: Embedding
  tgt_embedding :: Embedding
  positional_encoding :: PositionalEncoding
  encoder_layers :: "TransformerBlock list"
  decoder_layers :: "TransformerBlock list"
  fc_out :: Linear
  training :: bool

fun make_layers ::
  "(nat \<Rightarrow> nat list \<Rightarrow> real) \<Rightarrow> int \<Rightarrow> int \<Rightarrow> int \<Rightarrow> real \<Rightarrow> nat \<Rightarrow> error + TransformerBlock list" where
  "make_layers inits embed_size n_heads ff_hidden_size p 0 = Inr []"
| "make_layers inits embed_size n_heads ff_hidden_size p (Suc n) =
     and_then (TransformerBlock_init inits embed_size n_heads ff_hidden_size p) (\<lambda>b.
     and_then (make_layers (\<lambda>k. inits (k + 12)) embed_size n_heads ff_hidden_size p n) (\<lambda>bs.
       Inr (b # bs)))"

definition Transformer_init ::
  "(nat \<Rightarrow> nat list \<Rightarrow> real) \<Rightarrow> int \<Rightarrow> int \<Rightarrow> int \<Rightarrow> int \<Rightarrow> int \<Rightarrow> int \<Rightarrow> real \<Rightarrow> error + Transformer" where
  "Transformer_init inits src_vocab_size tgt_vocab_size embed_size n_heads num_layers
       ff_hidden_size p =
     and_then (nn_Embedding (inits 0) src_vocab_size embed_size) (\<lambda>se.
     and_then (nn_Embedding (inits 1) tgt_vocab_size embed_size) (\<lambda>te.
     and_then (PositionalEncoding_init embed_size 1000) (\<lambda>pos.
     and_then (make_layers (\<lambda>k. inits (k + 2)) embed_size n_heads ff_hidden_size p
                 (nat num_layers)) (\<lambda>enc.
     and_then (make_layers (\<lambda>k. inits (k + 2 + 12 * nat num_layers)) embed_size n_heads
                 ff_hidden_size p (nat num_layers)) (\<lambda>dec.
     and_then (nn_Linear (\<lambda>k. inits (k + 2 + 24 * nat num_layers)) embed_size tgt_vocab_size)
       (\<lambda>out.
         Inr \<lparr>src_embedding = se, tgt_embedding = te, positional_encoding = pos,
              encoder_layers = enc, decoder_layers = dec, fc_out = out, training = True\<rparr>))))))"

text \<open>
  \<^verbatim>\<open>
      def forward(self, src, tgt, src_mask=None, tgt_mask=None):
          src = self.positional_encoding(self.src_embedding(src))
          tgt = self.positional_encoding(self.tgt_embedding(tgt))
          for layer in self.encoder_layers:
              src = layer(src, src, src, src_mask)
          for layer in self.decoder_layers:
              tgt = layer(tgt, src, src, tgt_mask)
          return self.fc_out(tgt)
  \<close>
  The two loops are the recursions \<open>encoder_stack\<close> and \<open>decoder_stack\<close>; every layer takes
  the next three dropout masks of \<open>rng\<close>.
\<close>

fun encoder_stack ::
  "bool \<Rightarrow> (nat \<Rightarrow> nat list \<Rightarrow> bool) \<Rightarrow> TransformerBlock list \<Rightarrow> real tensor \<Rightarrow>
     real tensor option \<Rightarrow> error + real tensor" where
  "encoder_stack train rng [] src src_mask = Inr src"
| "encoder_stack train rng (layer # layers) src src_mask =
     and_then (TransformerBlock_forward layer train rng src src src src_mask) (\<lambda>src'.
       encoder_stack train (\<lambda>k. rng (k + 3)) layers src' src_mask)"

fun decoder_stack ::
  "bool \<Rightarrow> (nat \<Rightarrow> nat list \<Rightarrow> bool) \<Rightarrow> TransformerBlock list \<Rightarrow> real tensor \<Rightarrow> real tensor \<Rightarrow>
     real tensor option \<Rightarrow> error + real tensor" where
  "decoder_stack train rng [] tgt src tgt_mask = Inr tgt"
| "decoder_stack train rng (layer # layers) tgt src tgt_mask =
     and_then (TransformerBlock_forward layer train rng tgt src src tgt_mask) (\<lambda>tgt'.
       decoder_stack train (\<lambda>k. rng (k + 3)) layers tgt' src tgt_mask)"

definition Transformer_forward ::
  "Transformer \<Rightarrow> (nat \<Rightarrow> nat list \<Rightarrow> bool) \<Rightarrow> int tensor \<Rightarrow> int tensor \<Rightarrow> real tensor option \<Rightarrow>
     real tensor option \<Rightarrow> error + real tensor" where
  "Transformer_forward T rng src tgt src_mask tgt_mask =
     and_then (and_then (Embedding_forward (src_embedding T) src)
                 (PositionalEncoding_forward (positional_encoding T))) (\<lambda>src.
     and_then (and_then (Embedding_forward (tgt_embedding T) tgt)
                 (PositionalEncoding_forward (positional_encoding T))) (\<lambda>tgt.
     and_then (encoder_stack (training T) rng (encoder_layers T) src src_mask) (\<lambda>src.
     and_then (decoder_stack (training T) (\<lambda>k. rng (k + 3 * length (encoder_layers T)))
                 (decoder_layers T) tgt src tgt_mask) (\<lambda>tgt.
       Linear_forward (fc_out T) tgt))))"

subsection \<open>Shapes of results and sizes of layers\<close>

text \<open>A computation returns a tensor of shape \<open>s\<close>.\<close>

definition yields_shape :: "error + 'a tensor \<Rightarrow> nat list \<Rightarrow> bool" where
  "yields_shape r s \<longleftrightarrow> (\<exists>y. r = Inr y \<and> shape y = s)"

text \<open>The sizes that the constructors give to the layers.\<close>

definition linear_dims :: "Linear \<Rightarrow> nat \<Rightarrow> nat \<Rightarrow> bool" where
  "linear_dims l i out \<longleftrightarrow> in_features l = i \<and> out_features l = out"

definition mha_dims :: "MultiHeadAttention \<Rightarrow> nat \<Rightarrow> nat \<Rightarrow> nat \<Rightarrow> bool" where
  "mha_dims m e h d \<longleftrightarrow>
     num_heads m = int h \<and> head_dim m = int d \<and> h * d = e \<and> 0 < h \<and> 0 < d \<and>
     linear_dims (query_linear m) e e \<and> linear_dims (key_linear m) e e \<and>
     linear_dims (value_linear m) e e \<and> linear_dims (mha_fc_out m) e e"

definition block_dims :: "TransformerBlock \<Rightarrow> nat \<Rightarrow> nat \<Rightarrow> bool" where
  "block_dims blk e h \<longleftrightarrow>
     (\<exists>d. mha_dims (blk_attention blk) e h d) \<and>
     normalized_size (norm1 blk) = e \<and> normalized_size (norm2 blk) = e \<and>
     (\<exists>f. linear_dims (linear1 (feed_forward blk)) e f \<and>
          linear_dims (linear2 (feed_forward blk)) f e)"

section \<open>Training\<close>

text \<open>
  \<open>t[:, :-1]\<close> and \<open>t[:, 1:]\<close> on a tensor of rank at least 2 (two indices on a tensor of
  rank 1 are an \<open>IndexError\<close>): all but the last, and all but the first, position of
  dimension 1.
\<close>

definition all_but_last :: "'a tensor \<Rightarrow> error + 'a tensor" where
  "all_but_last t =
     (if length (shape t) < 2 then Inl IndexError
      else Inr \<lparr>shape = (shape t)[1 := shape t ! 1 - 1], elem = elem t\<rparr>)"

definition all_but_first :: "'a tensor \<Rightarrow> error + 'a tensor" where
  "all_but_first t =
     (if length (shape t) < 2 then Inl IndexError
      else Inr \<lparr>shape = (shape t)[1 := shape t ! 1 - 1],
                elem = (\<lambda>idx. elem t (idx[1 := Suc (idx ! 1)]))\<rparr>)"

text \<open>
  \<open>nn.CrossEntropyLoss(ignore_index=i)\<close> applied to scores of shape \<open>(N, C)\<close> and class
  targets of shape \<open>(N)\<close>, the form in which \<open>train_model\<close> calls it (other forms of the
  arguments are not modelled and reported as \<open>RuntimeError\<close>). The loss is the mean, over the
  rows whose target is not \<open>i\<close>, of \<open>-log (softmax row ! target)\<close>; a target that is neither
  \<open>i\<close> nor a class is an \<open>IndexError\<close>. The mean over no rows is not a number: \<open>None\<close>.
\<close>

definition CrossEntropyLoss :: "int \<Rightarrow> real tensor \<Rightarrow> int tensor \<Rightarrow> error + real option" where
  "CrossEntropyLoss ignore_index input target =
     (if length (shape input) \<noteq> 2 \<or> length (shape target) \<noteq> 1 then Inl RuntimeError
      else if shape input ! 0 \<noteq> shape target ! 0 then Inl ValueError
      else
        let C = shape input ! 1;
            rows = filter (\<lambda>n. elem target [n] \<noteq> ignore_index) [0..<shape input ! 0]
        in if list_ex (\<lambda>n. elem target [n] < 0 \<or> int C \<le> elem target [n]) rows
           then Inl IndexError
           else if rows = [] then Inr None
           else Inr (Some ((\<Sum>n\<leftarrow>rows. ln (\<Sum>c\<leftarrow>[0..<C]. exp (elem input [n, c])) -
                                       elem input [n, nat (elem target [n])]) /
                           real (length rows))))"

text \<open>The criterion of the main workflow: \<open>criterion = nn.CrossEntropyLoss(ignore_index=0)\<close>.\<close>

definition criterion :: "real tensor \<Rightarrow> int tensor \<Rightarrow> error + real option" where
  "criterion = CrossEntropyLoss 0"

text \<open>
  \<open>train_model\<close> works on any model, optimizer and criterion. What it calls on them is
  collected here: \<open>model.train()\<close>, the forward pass \<open>model(src, tgt_input)\<close> (the number of
  the pass selects the random dropout masks), \<open>loss.item()\<close>, the gradients that
  \<open>loss.backward()\<close> leaves in the parameters, and \<open>optimizer.zero_grad()\<close> ...
  \<open>optimizer.step()\<close>, which updates optimizer and parameters from the gradients.
\<close>

record ('m, 'o, 'g, 'l) training_ops =
  set_train :: "'m \<Rightarrow> 'm"
  call :: "'m \<Rightarrow> nat \<Rightarrow> int tensor \<Rightarrow> int tensor \<Rightarrow> error + real tensor"
  item :: "'l \<Rightarrow> real option"
  backward :: "'m \<Rightarrow> nat \<Rightarrow> int tensor \<Rightarrow> int tensor \<Rightarrow> int tensor \<Rightarrow> 'g"
  optimizer_step :: "'o \<Rightarrow> 'g \<Rightarrow> 'm \<Rightarrow> 'o \<times> 'm"

text \<open>
  A Python float that may be not-a-number is a \<open>real option\<close>, \<open>None\<close> for not-a-number;
  a sum or a quotient with it is not a number again.
\<close>

definition nan_add :: "real option \<Rightarrow> real option \<Rightarrow> real option" where
  "nan_add a b = (case (a, b) of (Some x, Some y) \<Rightarrow> Some (x + y) | _ \<Rightarrow> None)"

text \<open>
  The state of a training run: the model, the optimizer, the number of passes of the loop
  body made so far, the running \<open>total_loss\<close>, and the epoch losses printed so far.
\<close>

record ('m, 'o) train_state =
  cur_model :: 'm
  cur_optimizer :: 'o
  passes :: nat
  total_loss :: "real option"
  printed :: "real option list"

text \<open>
  \<^verbatim>\<open>
          for src, tgt in tqdm(dataloader, ...):
              src, tgt = src.to(device), tgt.to(device)
              tgt_input = tgt[:, :-1]
              tgt_output = tgt[:, 1:]
              outputs = model(src, tgt_input)
              loss = criterion(outputs.view(-1, outputs.size(-1)),
                               tgt_output.contiguous().view(-1))
              optimizer.zero_grad()
              loss.backward()
              optimizer.step()
              total_loss += loss.item()
  \<close>
  One pass of the loop body: the new state, or the exception it raises.
\<close>

definition train_batch ::
  "('m, 'o, 'g, 'l) training_ops \<Rightarrow> (real tensor \<Rightarrow> int tensor \<Rightarrow> error + 'l) \<Rightarrow>
     ('m, 'o) train_state \<Rightarrow> int tensor \<times> int tensor \<Rightarrow> error + ('m, 'o) train_state" where
  "train_batch ops crit st batch =
     (case batch of (src, tgt) \<Rightarrow>
        and_then (all_but_last tgt) (\<lambda>tgt_input.
        and_then (all_but_first tgt) (\<lambda>tgt_output.
        and_then (call ops (cur_model st) (passes st) src tgt_input) (\<lambda>outputs.
        and_then (size_dim outputs (- 1)) (\<lambda>v.
        and_then (view [- 1, int v] outputs) (\<lambda>flat_outputs.
        and_then (view [- 1] tgt_output) (\<lambda>flat_targets.
        and_then (crit flat_outputs flat_targets) (\<lambda>loss.
          let g = backward ops (cur_model st) (passes st) src tgt_input tgt_output;
              (opt', model') = optimizer_step ops (cur_optimizer st) g (cur_model st)
          in Inr (st\<lparr>cur_model := model', cur_optimizer := opt', passes := Suc (passes st),
                     total_loss := nan_add (total_loss st) (item ops loss)\<rparr>)))))))))"

text \<open>
  The loop over the batches of one epoch stops at the first exception; the state is then
  the one before the failing pass.
\<close>

fun train_batches ::
  "('m, 'o, 'g, 'l) training_ops \<Rightarrow> (real tensor \<Rightarrow> int tensor \<Rightarrow> error + 'l) \<Rightarrow>
     ('m, 'o) train_state \<Rightarrow> (int tensor \<times> int tensor) list \<Rightarrow>
     error option \<times> ('m, 'o) train_state" where
  "train_batches ops crit st [] = (None, st)"
| "train_batches ops crit st (batch # batches) =
     (case train_batch ops crit st batch of
        Inl e \<Rightarrow> (Some e, st)
      | Inr st' \<Rightarrow> train_batches ops crit st' batches)"

text \<open>
  \<^verbatim>\<open>
  def train_model(model, dataloader, optimizer, criterion, num_epochs):
      model.train()
      for epoch in range(num_epochs):
          total_loss = 0
          ... the loop over the batches ...
          print(f"Epoch {epoch+1}, Loss: {total_loss/len(dataloader):.4f}")
  \<close>
  The data loader yields the same list of batches in every epoch. The division by
  \<open>len(dataloader)\<close> raises \<open>ZeroDivisionError\<close> for a loader without batches.
\<close>

fun train_epochs ::
  "('m, 'o, 'g, 'l) training_ops \<Rightarrow> (real tensor \<Rightarrow> int tensor \<Rightarrow> error + 'l) \<Rightarrow>
     (int tensor \<times> int tensor) list \<Rightarrow> ('m, 'o) train_state \<Rightarrow> nat \<Rightarrow>
     error option \<times> ('m, 'o) train_state" where
  "train_epochs ops crit dataloader st 0 = (None, st)"
| "train_epochs ops crit dataloader st (Suc k) =
     (case train_batches ops crit (st\<lparr>total_loss := Some 0\<rparr>) dataloader of
        (Some e, st') \<Rightarrow> (Some e, st')
      | (None, st') \<Rightarrow>
          if dataloader = [] then (Some ZeroDivisionError, st')
          else train_epochs ops crit dataloader
                 (st'\<lparr>printed := printed st' @
                    [map_option (\<lambda>x. x / real (length dataloader)) (total_loss st')]\<rparr>) k)"

definition train_model ::
  "('m, 'o, 'g, 'l) training_ops \<Rightarrow> 'm \<Rightarrow> (int tensor \<times> int tensor) list \<Rightarrow> 'o \<Rightarrow>
     (real tensor \<Rightarrow> int tensor \<Rightarrow> error + 'l) \<Rightarrow> int \<Rightarrow> error option \<times> ('m, 'o) train_state" where
  "train_model ops mdl dataloader opt crit num_epochs =
     train_epochs ops crit dataloader
       \<lparr>cur_model = set_train ops mdl, cur_optimizer = opt, passes = 0, total_loss = Some 0,
        printed = []\<rparr>
       (nat num_epochs)"

text \<open>
  Training the Transformer: \<open>model.train()\<close> sets the training flag, and the model is called
  without masks. \<open>randomness n\<close> holds the dropout masks of forward pass \<open>n\<close>.
\<close>

definition transformer_ops ::
  "(nat \<Rightarrow> nat \<Rightarrow> nat list \<Rightarrow> bool) \<Rightarrow>
   (Transformer \<Rightarrow> nat \<Rightarrow> int tensor \<Rightarrow> int tensor \<Rightarrow> int tensor \<Rightarrow> 'g) \<Rightarrow>
   ('o \<Rightarrow> 'g \<Rightarrow> Transformer \<Rightarrow> 'o \<times> Transformer) \<Rightarrow>
   (Transformer, 'o, 'g, real option) training_ops" where
  "transformer_ops randomness grads step =
     \<lparr>set_train = (\<lambda>T. T\<lparr>training := True\<rparr>),
      call = (\<lambda>T n src tgt. Transformer_forward T (randomness n) src tgt None None),
      item = (\<lambda>loss. loss),
      backward = grads,
      optimizer_step = step\<rparr>"

subsection \<open>Fixed inputs for concrete runs\<close>

text \<open>A vector given by its entries, as a tensor of rank 1.\<close>

definition vector :: "'a list \<Rightarrow> 'a tensor" where
  "vector xs = \<lparr>shape = [length xs], elem = (\<lambda>idx. xs ! (idx ! 0))\<rparr>"

text \<open>
  A model over a vocabulary of 4 tokens whose scores are all zero, trained by an optimizer
  that only counts its steps.
\<close>

definition zero_model_ops :: "(unit, nat, unit, real option) training_ops" where
  "zero_model_ops =
     \<lparr>set_train = (\<lambda>m. m),
      call = (\<lambda>m n src tgt. Inr (zeros (shape tgt @ [4]))),
      item = (\<lambda>loss. loss),
      backward = (\<lambda>m n src tgt_input tgt_output. ()),
      optimizer_step = (\<lambda>opt g m. (Suc opt, m))\<rparr>"

text \<open>A batch of zero samples: token tensors of shape \<open>(0, 50)\<close>.\<close>

definition empty_batch :: "int tensor \<times> int tensor" where
  "empty_batch = (\<lparr>shape = [0, 50], elem = (\<lambda>idx. 0)\<rparr>, \<lparr>shape = [0, 50], elem = (\<lambda>idx. 0)\<rparr>)"

section \<open>Properties of padding\<close>

text \<open>
  Claim C8. For a non-negative \<open>maxlen\<close>, \<open>pad_sequences\<close> never raises: it returns one row
  per input sequence, every row has exactly \<open>maxlen\<close> tokens, a sequence longer than
  \<open>maxlen\<close> is cut to its first \<open>maxlen\<close> tokens, and a sequence of at most \<open>maxlen\<close>
  tokens is kept and filled up with the padding value 0.
\<close>

theorem pad_sequences_pads_and_truncates:
  assumes "0 \<le> maxlen"
  shows "\<exists>rows. pad_sequences sequences maxlen 0 = Inr rows \<and> length rows = length sequences \<and>
     (\<forall>i<length sequences. length (rows ! i) = nat maxlen \<and>
        (maxlen < int (length (sequences ! i)) \<longrightarrow> rows ! i = take (nat maxlen) (sequences ! i)) \<and>
        (int (length (sequences ! i)) \<le> maxlen \<longrightarrow>
           rows ! i = sequences ! i @ replicate (nat maxlen - length (sequences ! i)) 0))"
proof -
  let ?rows = "map (pad_row maxlen 0) sequences"
  have len: "length (pad_row maxlen 0 seq) = nat maxlen" for seq
    using assms by (auto simp: pad_row_def list_times_def slice_to_def)
  have rect: "np_array ?rows = Inr ?rows"
    by (cases sequences) (simp_all add: np_array_def len list_all_iff)
  have trunc: "maxlen < int (length seq) \<Longrightarrow> pad_row maxlen 0 seq = take (nat maxlen) seq" for seq
    using assms by (simp add: pad_row_def slice_to_def)
  have pad: "int (length seq) \<le> maxlen \<Longrightarrow>
      pad_row maxlen 0 seq = seq @ replicate (nat maxlen - length seq) 0" for seq
    using assms by (auto simp: pad_row_def slice_to_def list_times_def nat_diff_distrib)
  show ?thesis
    unfolding pad_sequences_def rect
    by (intro exI[of _ ?rows]) (simp add: len trunc pad)
qed

theorem pad_sequences_pads_and_truncates_witness:
  "(0::int) \<le> 2 \<and> pad_sequences [[5, 6, 7], [8], [1, 2]] 2 0 = Inr [[5, 6], [8, 0], [1, 2]] \<and>
   (\<exists>rows. pad_sequences [[5, 6, 7], [8], [1, 2]] 2 0 = Inr rows \<and> length rows = 3 \<and>
      length (rows ! 0) = 2 \<and> rows ! 0 = take 2 [5, 6, 7] \<and> rows ! 1 = [8] @ replicate 1 0)"
proof -
  have h: "(0::int) \<le> 2" by simp
  have v: "pad_sequences [[5, 6, 7], [8], [1, 2]] 2 0 = Inr [[5, 6], [8, 0], [1, 2]]"
    by (simp add: pad_sequences_def pad_row_def np_array_def slice_to_def list_times_def)
  from pad_sequences_pads_and_truncates[OF h, of "[[5, 6, 7], [8], [1, 2]]"] v
  show ?thesis by simp
qed

section \<open>Properties of greedy decoding\<close>

lemma generated_Nil: "generated model src e tgt []"
  by (simp add: generated_def)

lemma generated_Cons:
  "generated model src e tgt (x # gen) \<longleftrightarrow>
     (\<exists>out. model src tgt = Inr out \<and> next_token out = Inr x) \<and> (gen \<noteq> [] \<longrightarrow> x \<noteq> e) \<and>
     generated model src e (tgt @ [x]) gen"
proof -
  have a: "(\<forall>k<length (x # gen). \<exists>out. model src (tgt @ take k (x # gen)) = Inr out \<and>
              next_token out = Inr ((x # gen) ! k)) \<longleftrightarrow>
           (\<exists>out. model src tgt = Inr out \<and> next_token out = Inr x) \<and>
           (\<forall>k<length gen. \<exists>out. model src ((tgt @ [x]) @ take k gen) = Inr out \<and>
              next_token out = Inr (gen ! k))"
    by (auto simp: less_Suc_eq_0_disj)
  have b: "(\<forall>k. Suc k < length (x # gen) \<longrightarrow> (x # gen) ! k \<noteq> e) \<longleftrightarrow>
           (gen \<noteq> [] \<longrightarrow> x \<noteq> e) \<and> (\<forall>k. Suc k < length gen \<longrightarrow> gen ! k \<noteq> e)"
    by (auto simp: nth_Cons split: nat.splits)
  show ?thesis unfolding generated_def a b by blast
qed

lemma decode_loop_stop: "\<not> i < max_len \<Longrightarrow> decode_loop model src max_len e i tgt = Inr tgt"
  by (subst decode_loop.simps) simp

lemma decode_loop_model_error:
  "i < max_len \<Longrightarrow> model src tgt = Inl err \<Longrightarrow> decode_loop model src max_len e i tgt = Inl err"
  by (subst decode_loop.simps) simp

lemma decode_loop_token_error:
  "i < max_len \<Longrightarrow> model src tgt = Inr out \<Longrightarrow> next_token out = Inl err \<Longrightarrow>
   decode_loop model src max_len e i tgt = Inl err"
  by (subst decode_loop.simps) simp

lemma decode_loop_end:
  "i < max_len \<Longrightarrow> model src tgt = Inr out \<Longrightarrow> next_token out = Inr e \<Longrightarrow>
   decode_loop model src max_len e i tgt = Inr (tgt @ [e])"
  by (subst decode_loop.simps) simp

lemma decode_loop_continue:
  "i < max_len \<Longrightarrow> model src tgt = Inr out \<Longrightarrow> next_token out = Inr x \<Longrightarrow> x \<noteq> e \<Longrightarrow>
   decode_loop model src max_len e i tgt = decode_loop model src max_len e (i + 1) (tgt @ [x])"
  by (subst decode_loop.simps) simp

lemma decode_loop_run:
  "\<exists>gen. generated model src e tgt gen \<and> int (length gen) \<le> max 0 (max_len - i) \<and>
     (case decode_loop model src max_len e i tgt of
        Inr r \<Rightarrow> r = tgt @ gen \<and> (int (length gen) = max 0 (max_len - i) \<or> (gen \<noteq> [] \<and> last gen = e))
      | Inl err \<Rightarrow> int (length gen) < max_len - i \<and> e \<notin> set gen \<and>
          (model src (tgt @ gen) = Inl err \<or>
           (\<exists>out. model src (tgt @ gen) = Inr out \<and> next_token out = Inl err)))"
proof (induction model src max_len e i tgt rule: decode_loop.induct)
  case (1 model src max_len e i tgt)
  show ?case
  proof (cases "i < max_len")
    case False
    then show ?thesis
      by (intro exI[of _ "[]"]) (simp add: generated_Nil decode_loop_stop)
  next
    case lt: True
    show ?thesis
    proof (cases "model src tgt")
      case (Inl err)
      with lt show ?thesis
        by (intro exI[of _ "[]"]) (simp add: generated_Nil decode_loop_model_error)
    next
      case (Inr out)
      show ?thesis
      proof (cases "next_token out")
        case (Inl err)
        with lt Inr show ?thesis
          by (intro exI[of _ "[]"]) (simp add: generated_Nil decode_loop_token_error)
      next
        case tok: (Inr x)
        show ?thesis
        proof (cases "x = e")
          case True
          with lt Inr tok show ?thesis
            by (intro exI[of _ "[x]"]) (simp add: generated_Cons generated_Nil decode_loop_end)
        next
          case False
          from "1.IH"[OF lt Inr tok False]
          obtain gen where g: "generated model src e (tgt @ [x]) gen"
            and len: "int (length gen) \<le> max 0 (max_len - (i + 1))"
            and res: "(case decode_loop model src max_len e (i + 1) (tgt @ [x]) of
                Inr r \<Rightarrow> r = (tgt @ [x]) @ gen \<and>
                  (int (length gen) = max 0 (max_len - (i + 1)) \<or> (gen \<noteq> [] \<and> last gen = e))
              | Inl err \<Rightarrow> int (length gen) < max_len - (i + 1) \<and> e \<notin> set gen \<and>
                  (model src ((tgt @ [x]) @ gen) = Inl err \<or>
                   (\<exists>out. model src ((tgt @ [x]) @ gen) = Inr out \<and> next_token out = Inl err)))"
            by blast
          have step: "decode_loop model src max_len e i tgt =
              decode_loop model src max_len e (i + 1) (tgt @ [x])"
            using lt Inr tok False by (rule decode_loop_continue)
          have g': "generated model src e tgt (x # gen)"
            using g Inr tok False by (simp add: generated_Cons)
          show ?thesis
            using g' len res lt False unfolding step
            by (intro exI[of _ "x # gen"]) (auto split: sum.splits)
        qed
      qed
    qed
  qed
qed

lemma argmax_from_spec:
  "zs = pre @ xs \<Longrightarrow> i = length pre \<Longrightarrow> best < i \<Longrightarrow> bv = zs ! best \<Longrightarrow>
   \<forall>j<i. zs ! j \<le> bv \<Longrightarrow> \<forall>j<best. zs ! j < bv \<Longrightarrow>
   argmax_from best bv i xs < length zs \<and>
   (\<forall>j<length zs. zs ! j \<le> zs ! argmax_from best bv i xs) \<and>
   (\<forall>j<argmax_from best bv i xs. zs ! j < zs ! argmax_from best bv i xs)"
proof (induction xs arbitrary: pre best bv i)
  case Nil
  then show ?case by simp
next
  case (Cons x xs)
  have zi: "zs ! i = x" using Cons.prems(1,2) by simp
  have zs': "zs = (pre @ [x]) @ xs" using Cons.prems(1) by simp
  have i': "Suc i = length (pre @ [x])" using Cons.prems(2) by simp
  show ?case
  proof (cases "bv < x")
    case True
    have a: "\<forall>j<Suc i. zs ! j \<le> x"
      using Cons.prems(5) True zi by (auto simp: less_Suc_eq intro: order.trans less_imp_le)
    have b: "\<forall>j<i. zs ! j < x"
      using Cons.prems(5) True by (auto intro: le_less_trans)
    have "argmax_from i x (Suc i) xs < length zs \<and>
        (\<forall>j<length zs. zs ! j \<le> zs ! argmax_from i x (Suc i) xs) \<and>
        (\<forall>j<argmax_from i x (Suc i) xs. zs ! j < zs ! argmax_from i x (Suc i) xs)"
      by (rule Cons.IH[OF zs' i' _ _ a b]) (simp_all add: zi)
    with True show ?thesis by simp
  next
    case False
    have a: "\<forall>j<Suc i. zs ! j \<le> bv"
      using Cons.prems(5) False zi by (auto simp: less_Suc_eq)
    have "argmax_from best bv (Suc i) xs < length zs \<and>
        (\<forall>j<length zs. zs ! j \<le> zs ! argmax_from best bv (Suc i) xs) \<and>
        (\<forall>j<argmax_from best bv (Suc i) xs. zs ! j < zs ! argmax_from best bv (Suc i) xs)"
      using Cons.prems(3) by (intro Cons.IH[OF zs' i' _ Cons.prems(4) a Cons.prems(6)]) simp
    with False show ?thesis by simp
  qed
qed

lemma argmax_spec:
  assumes "argmax zs = Inr r"
  shows "r < length zs \<and> (\<forall>j<length zs. zs ! j \<le> zs ! r) \<and> (\<forall>j<r. zs ! j < zs ! r)"
proof (cases zs)
  case Nil
  with assms show ?thesis by (simp add: argmax_def)
next
  case (Cons x ys)
  have r: "r = argmax_from 0 x 1 ys" using assms Cons by (simp add: argmax_def)
  have "argmax_from 0 x 1 ys < length zs \<and>
        (\<forall>j<length zs. zs ! j \<le> zs ! argmax_from 0 x 1 ys) \<and>
        (\<forall>j<argmax_from 0 x 1 ys. zs ! j < zs ! argmax_from 0 x 1 ys)"
    by (rule argmax_from_spec[where pre = "[x]"]) (simp_all add: Cons)
  then show ?thesis by (simp add: r)
qed

lemma next_token_spec:
  assumes "next_token out = Inr t"
  shows "\<exists>b. out = [b] \<and> b \<noteq> [] \<and> 0 \<le> t \<and> nat t < length (last b) \<and>
           (\<forall>j<length (last b). last b ! j \<le> last b ! nat t) \<and>
           (\<forall>j<nat t. last b ! j < last b ! nat t)"
proof -
  from assms obtain b where out: "out = [b]" and b: "b \<noteq> []"
    by (auto simp: next_token_def split: if_splits list.splits sum.splits)
  from assms out obtain r where r: "argmax (last b) = Inr r" and t: "t = int r"
    by (auto simp: next_token_def split: if_splits list.splits sum.splits)
  from argmax_spec[OF r] out b t show ?thesis by simp
qed

text \<open>
  Claim C3, as stated, fails by one: the run does not stop when the sequence, which starts
  as \<open>[BOS]\<close>, reaches \<open>max_len\<close> tokens. With \<open>max_len = 2\<close> and a model that never predicts
  the end token 3, the returned sequence has 3 tokens.
\<close>

theorem greedy_decode_run_counterexample:
  "greedy_decode never_eos_model () 2 2 3 = Inr [2, 1, 1] \<and> 3 \<notin> set [2, 1, 1 :: int] \<and>
   2 < int (length [2, 1, 1 :: int])"
  by (simp add: greedy_decode_def decode_loop.simps never_eos_model_def next_token_def argmax_def)

text \<open>
  Claim C3, amended. A run of \<open>greedy_decode\<close> starts from \<open>[start_token_id]\<close> and appends
  tokens \<open>gen\<close>, at most \<open>max_len\<close> of them, so it makes at most \<open>max_len\<close> forward passes and
  always ends. Token \<open>k\<close> is the index of the first maximal score in the last row of the
  output that the model gives for the source and the prefix generated so far; no token
  before the last is the end token. When the run returns, it stopped because the last token
  is the end token or because \<open>max_len\<close> tokens were generated after the start token (the
  sequence then holds \<open>max_len + 1\<close> tokens); otherwise it stopped early at a forward pass or a
  read-off that raised.
\<close>

theorem greedy_decode_run:
  "\<exists>gen. int (length gen) \<le> max 0 max_len \<and>
     (\<forall>k<length gen. \<exists>b. model src (s # take k gen) = Inr [b] \<and> b \<noteq> [] \<and>
          0 \<le> gen ! k \<and> nat (gen ! k) < length (last b) \<and>
          (\<forall>j<length (last b). last b ! j \<le> last b ! nat (gen ! k)) \<and>
          (\<forall>j<nat (gen ! k). last b ! j < last b ! nat (gen ! k))) \<and>
     (\<forall>k. Suc k < length gen \<longrightarrow> gen ! k \<noteq> e) \<and>
     (case greedy_decode model src max_len s e of
        Inr r \<Rightarrow> r = s # gen \<and> (int (length gen) = max 0 max_len \<or> (gen \<noteq> [] \<and> last gen = e))
      | Inl err \<Rightarrow> int (length gen) < max_len \<and> e \<notin> set gen \<and>
          (model src (s # gen) = Inl err \<or>
           (\<exists>out. model src (s # gen) = Inr out \<and> next_token out = Inl err)))"
proof -
  from decode_loop_run[of model src e "[s]" max_len 0]
  obtain gen where g: "generated model src e [s] gen"
    and len: "int (length gen) \<le> max 0 max_len"
    and res: "(case decode_loop model src max_len e 0 [s] of
        Inr r \<Rightarrow> r = [s] @ gen \<and> (int (length gen) = max 0 (max_len - 0) \<or> (gen \<noteq> [] \<and> last gen = e))
      | Inl err \<Rightarrow> int (length gen) < max_len - 0 \<and> e \<notin> set gen \<and>
          (model src ([s] @ gen) = Inl err \<or>
           (\<exists>out. model src ([s] @ gen) = Inr out \<and> next_token out = Inl err)))"
    by auto
  have pass: "\<forall>k<length gen. \<exists>b. model src (s # take k gen) = Inr [b] \<and> b \<noteq> [] \<and>
          0 \<le> gen ! k \<and> nat (gen ! k) < length (last b) \<and>
          (\<forall>j<length (last b). last b ! j \<le> last b ! nat (gen ! k)) \<and>
          (\<forall>j<nat (gen ! k). last b ! j < last b ! nat (gen ! k))"
  proof (intro allI impI)
    fix k assume "k < length gen"
    with g obtain out where m: "model src (s # take k gen) = Inr out"
      and t: "next_token out = Inr (gen ! k)"
      by (auto simp: generated_def)
    from next_token_spec[OF t] m
    show "\<exists>b. model src (s # take k gen) = Inr [b] \<and> b \<noteq> [] \<and>
          0 \<le> gen ! k \<and> nat (gen ! k) < length (last b) \<and>
          (\<forall>j<length (last b). last b ! j \<le> last b ! nat (gen ! k)) \<and>
          (\<forall>j<nat (gen ! k). last b ! j < last b ! nat (gen ! k))"
      by auto
  qed
  have noeos: "\<forall>k. Suc k < length gen \<longrightarrow> gen ! k \<noteq> e"
    using g by (simp add: generated_def)
  show ?thesis
    using len pass noeos res unfolding greedy_decode_def
    by (intro exI[of _ gen]) (simp split: sum.splits)
qed

theorem greedy_decode_run_witness:
  "greedy_decode never_eos_model () 2 2 3 = Inr [2, 1, 1] \<and>
   greedy_decode always_eos_model () 50 2 3 = Inr [2, 3] \<and>
   (\<exists>gen. int (length gen) \<le> max 0 2 \<and>
      (case greedy_decode never_eos_model () 2 2 3 of
         Inr r \<Rightarrow> r = 2 # gen \<and> (int (length gen) = max 0 2 \<or> (gen \<noteq> [] \<and> last gen = 3))
       | Inl err \<Rightarrow> int (length gen) < 2))"
proof -
  have a: "greedy_decode never_eos_model () 2 2 3 = Inr [2, 1, 1]"
    by (simp add: greedy_decode_def decode_loop.simps never_eos_model_def next_token_def
        argmax_def)
  have b: "greedy_decode always_eos_model () 50 2 3 = Inr [2, 3]"
    by (simp add: greedy_decode_def decode_loop.simps always_eos_model_def next_token_def
        argmax_def)
  from greedy_decode_run[of 2 never_eos_model "()" 2 3]
  obtain gen where "int (length gen) \<le> max 0 2"
    and "(case greedy_decode never_eos_model () 2 2 3 of
         Inr r \<Rightarrow> r = 2 # gen \<and> (int (length gen) = max 0 2 \<or> (gen \<noteq> [] \<and> last gen = 3))
       | Inl err \<Rightarrow> int (length gen) < 2 \<and> 3 \<notin> set gen \<and>
          (never_eos_model () (2 # gen) = Inl err \<or>
           (\<exists>out. never_eos_model () (2 # gen) = Inr out \<and> next_token out = Inl err)))"
    by blast
  then have "\<exists>gen. int (length gen) \<le> max 0 2 \<and>
      (case greedy_decode never_eos_model () 2 2 3 of
         Inr r \<Rightarrow> r = 2 # gen \<and> (int (length gen) = max 0 2 \<or> (gen \<noteq> [] \<and> last gen = 3))
       | Inl err \<Rightarrow> int (length gen) < 2)"
    by (intro exI[of _ gen]) (simp split: sum.splits)
  with a b show ?thesis by blast
qed

lemma greedy_decode_returns:
  assumes "greedy_decode model src max_len s e = Inr r"
  shows "\<exists>gen. r = s # gen \<and> int (length gen) \<le> max 0 max_len \<and>
           (\<forall>k. Suc k < length gen \<longrightarrow> gen ! k \<noteq> e) \<and>
           (int (length gen) = max 0 max_len \<or> (gen \<noteq> [] \<and> last gen = e))"
  using decode_loop_run[of model src e "[s]" max_len 0] assms
  by (auto simp: greedy_decode_def generated_def)

lemma greedy_decode_no_iterations:
  "max_len \<le> 0 \<Longrightarrow> greedy_decode model src max_len s e = Inr [s]"
  by (simp add: greedy_decode_def decode_loop_stop)

text \<open>
  Claim C10, as stated, fails for \<open>max_len = 0\<close>: the loop body never runs and the returned
  list is \<open>[start_token_id]\<close>, of length 1.
\<close>

theorem greedy_decode_result_shape_counterexample:
  "greedy_decode always_eos_model () 0 2 3 = Inr [2] \<and> \<not> 2 \<le> length [2::int]"
  by (simp add: greedy_decode_def decode_loop.simps)

text \<open>
  Claim C10, amended. For \<open>max_len \<ge> 1\<close>, a list returned by \<open>greedy_decode\<close> begins with
  \<open>start_token_id\<close>, has at least 2 and at most \<open>max_len + 1\<close> elements, holds
  \<open>end_token_id\<close> among the generated tokens (positions 1 and up) only as its final element,
  and has exactly \<open>max_len\<close> generated tokens when it does not end in \<open>end_token_id\<close>. For
  \<open>max_len \<le> 0\<close> the returned list is \<open>[start_token_id]\<close>.
\<close>

theorem greedy_decode_result_shape:
  assumes "greedy_decode model src max_len s e = Inr r"
  shows "(1 \<le> max_len \<longrightarrow>
            hd r = s \<and> 2 \<le> length r \<and> int (length r) \<le> max_len + 1 \<and>
            (\<forall>k. 1 \<le> k \<and> Suc k < length r \<longrightarrow> r ! k \<noteq> e) \<and>
            (last r \<noteq> e \<longrightarrow> int (length r) = max_len + 1)) \<and>
         (max_len \<le> 0 \<longrightarrow> r = [s])"
proof (rule conjI; rule impI)
  assume m: "1 \<le> max_len"
  from greedy_decode_returns[OF assms] obtain gen where r: "r = s # gen"
    and len: "int (length gen) \<le> max 0 max_len"
    and noeos: "\<forall>k. Suc k < length gen \<longrightarrow> gen ! k \<noteq> e"
    and stop: "int (length gen) = max 0 max_len \<or> (gen \<noteq> [] \<and> last gen = e)"
    by blast
  have ne: "gen \<noteq> []" using stop m by auto
  have a: "\<forall>k. 1 \<le> k \<and> Suc k < length r \<longrightarrow> r ! k \<noteq> e"
  proof (intro allI impI)
    fix k assume k: "1 \<le> k \<and> Suc k < length r"
    then obtain k' where k': "k = Suc k'" by (cases k) auto
    with k r noeos show "r ! k \<noteq> e" by simp
  qed
  have pos: "1 \<le> length gen" using ne by (cases gen) auto
  have lst: "last r = last gen" using r ne by simp
  show "hd r = s \<and> 2 \<le> length r \<and> int (length r) \<le> max_len + 1 \<and>
        (\<forall>k. 1 \<le> k \<and> Suc k < length r \<longrightarrow> r ! k \<noteq> e) \<and>
        (last r \<noteq> e \<longrightarrow> int (length r) = max_len + 1)"
    using r len stop pos a m unfolding lst by auto
next
  assume "max_len \<le> 0"
  from greedy_decode_no_iterations[OF this, of model src s e] assms show "r = [s]" by simp
qed

theorem greedy_decode_result_shape_witness:
  "greedy_decode never_eos_model () 2 2 3 = Inr [2, 1, 1] \<and> (1::int) \<le> 2 \<and>
   hd [2, 1, 1] = (2::int) \<and> 2 \<le> length [2, 1, 1::int] \<and> int (length [2, 1, 1::int]) \<le> 2 + 1 \<and>
   [2, 1, 1] ! 1 \<noteq> (3::int) \<and> int (length [2, 1, 1::int]) = 2 + 1"
proof -
  have a: "greedy_decode never_eos_model () 2 2 3 = Inr [2, 1, 1]"
    by (simp add: greedy_decode_def decode_loop.simps never_eos_model_def next_token_def
        argmax_def)
  have h: "(1::int) \<le> 2" by simp
  from greedy_decode_result_shape[OF a, THEN conjunct1, rule_format, OF h] a
  show ?thesis by simp
qed

section \<open>Properties of the tensor operations\<close>

lemma and_then_Inl [simp]: "and_then (Inl e) f = Inl e"
  by (simp add: and_then_def)

lemma and_then_Inr [simp]: "and_then (Inr x) f = f x"
  by (simp add: and_then_def)

lemma and_then_Inr_right [simp]: "and_then m Inr = m"
  by (cases m) simp_all

lemma and_then_eq_Inr:
  "and_then m f = Inr y \<longleftrightarrow> (\<exists>x. m = Inr x \<and> f x = Inr y)"
  by (cases m) simp_all

lemma broadcast_rev_same: "broadcast_rev xs xs = Inr xs"
  by (induction xs) simp_all

lemma broadcast_shapes_same: "broadcast_shapes s s = Inr s"
  by (simp add: broadcast_shapes_def broadcast_rev_same)

lemma valid_index_length: "valid_index s idx \<Longrightarrow> length idx = length s"
  by (simp add: valid_index_def list_all2_lengthD)

lemma valid_index_Nil [simp]: "valid_index [] idx \<longleftrightarrow> idx = []"
  by (simp add: valid_index_def)

lemma valid_index_append:
  assumes "valid_index s b"
  shows "valid_index (s @ t) (b @ c) \<longleftrightarrow> valid_index t c"
proof -
  have len: "length b = length s" using assms by (rule valid_index_length)
  show ?thesis
    using assms by (simp add: valid_index_def list_all2_append[OF len])
qed

lemma valid_index_two [simp]: "valid_index [n, m] [i, j] \<longleftrightarrow> i < n \<and> j < m"
  by (simp add: valid_index_def)

lemma bproj_valid: "valid_index s idx \<Longrightarrow> bproj s idx = idx"
proof -
  assume v: "valid_index s idx"
  have "list_all2 (<) idx s \<Longrightarrow> map2 (\<lambda>n i. if n = 1 then 0 else i) s idx = idx"
    by (induction idx s rule: list_all2_induct) auto
  with v show ?thesis
    by (simp add: bproj_def valid_index_def list_all2_lengthD)
qed

lemma norm_dim_last: "0 < r \<Longrightarrow> norm_dim r (- 1) = Inr (r - 1)"
  by (auto simp: norm_dim_def nat_eq_iff)

lemma norm_dim_last2: "2 \<le> r \<Longrightarrow> norm_dim r (- 2) = Inr (r - 2)"
  by (auto simp: norm_dim_def nat_eq_iff)

lemma swap_last2:
  "length bs = r \<Longrightarrow> swap r (Suc r) (bs @ [x, y]) = bs @ [y, x]"
  by (simp add: swap_def nth_append list_update_append)

lemma sum_list_upt: "(\<Sum>k\<leftarrow>[0..<m]. f k) = (\<Sum>k<m. f k)"
  by (simp add: interv_sum_list_conv_sum_set_nat atLeast0LessThan)

lemma transpose_last2_regular:
  assumes "shape t = bs @ [n, m]"
  shows "\<exists>u. transpose_dims (- 2) (- 1) t = Inr u \<and> shape u = bs @ [m, n] \<and>
           (\<forall>b i j. length b = length bs \<longrightarrow> elem u (b @ [i, j]) = elem t (b @ [j, i]))"
proof -
  let ?r = "length bs"
  have d2: "norm_dim (Suc (Suc ?r)) (- 2) = Inr ?r"
    using norm_dim_last2[of "Suc (Suc ?r)"] by simp
  have d1: "norm_dim (Suc (Suc ?r)) (- 1) = Inr (Suc ?r)"
    using norm_dim_last[of "Suc (Suc ?r)"] by simp
  show ?thesis
    by (simp add: transpose_dims_def d1 d2 assms swap_last2)
qed

lemma matmul_regular:
  assumes "shape a = bs @ [n, m]" and "shape b = bs @ [m, p]"
  shows "\<exists>c. matmul a b = Inr c \<and> shape c = bs @ [n, p] \<and>
           (\<forall>bi i j. valid_index bs bi \<longrightarrow>
              elem c (bi @ [i, j]) = (\<Sum>k<m. elem a (bi @ [i, k]) * elem b (bi @ [k, j])))"
proof -
  have batched: "matmul a b = matmul_batched a b"
    by (simp add: matmul_def assms Let_def)
  show ?thesis
    unfolding batched
    by (auto simp: matmul_batched_def assms Let_def broadcast_shapes_same nth_append
        valid_index_length bproj_valid sum_list_upt)
qed

lemma masked_fill_regular:
  assumes "broadcast_shapes (shape t) (shape m) = Inr (shape t)"
  shows "\<exists>u. masked_fill t m v = Inr u \<and> shape u = shape t \<and>
           (\<forall>idx. valid_index (shape t) idx \<longrightarrow>
              elem u idx = (if elem m (bproj (shape m) idx) then v else elem t idx))"
  by (simp add: masked_fill_def assms bproj_valid)

lemma softmax_last_regular:
  assumes "shape t = bs @ [n]"
  shows "shape (softmax_last t) = bs @ [n] \<and>
         (\<forall>b j. elem (softmax_last t) (b @ [j]) =
                  exp (elem t (b @ [j])) / (\<Sum>j'<n. exp (elem t (b @ [j']))))"
  by (simp add: softmax_last_def assms sum_list_upt)

section \<open>Properties of scaled dot-product attention\<close>

lemma attention_forward_regular:
  assumes q: "shape query = bs @ [sq, d]" and k: "shape key = bs @ [sk, d]"
    and v: "shape value = bs @ [sk, dv]" and m: "mask_fits msk (bs @ [sq, sk])"
  shows "\<exists>output attention.
           ScaledDotProductAttention_forward query key value msk = Inr (output, attention) \<and>
           shape attention = bs @ [sq, sk] \<and> shape output = bs @ [sq, dv] \<and>
           (\<forall>b i j. valid_index bs b \<and> i < sq \<and> j < sk \<longrightarrow>
              elem attention (b @ [i, j]) =
                exp (masked_score query key msk d b i j) /
                (\<Sum>j'<sk. exp (masked_score query key msk d b i j'))) \<and>
           (\<forall>b i c. valid_index bs b \<longrightarrow>
              elem output (b @ [i, c]) =
                (\<Sum>j<sk. elem attention (b @ [i, j]) * elem value (b @ [j, c])))"
proof -
  have dk: "size_dim query (- 1) = Inr d"
    using norm_dim_last[of "Suc (Suc (length bs))"] by (simp add: size_dim_def q nth_append)
  from transpose_last2_regular[OF k] obtain key_t
    where kt: "transpose_dims (- 2) (- 1) key = Inr key_t"
      and kts: "shape key_t = bs @ [d, sk]"
      and kte: "\<forall>b i j. length b = length bs \<longrightarrow> elem key_t (b @ [i, j]) = elem key (b @ [j, i])"
    by blast
  from matmul_regular[OF q kts] obtain qk
    where qk: "matmul query key_t = Inr qk" and qks: "shape qk = bs @ [sq, sk]"
      and qke: "\<forall>bi i j. valid_index bs bi \<longrightarrow>
        elem qk (bi @ [i, j]) = (\<Sum>c<d. elem query (bi @ [i, c]) * elem key_t (bi @ [c, j]))"
    by blast
  have qke': "elem qk (b @ [i, j]) / sqrt (real d) = scaled_score query key d b i j"
    if "valid_index bs b" for b i j
    using that qke kte by (simp add: scaled_score_def valid_index_length)
  define unmasked where "unmasked = div_scalar qk (sqrt (real d))"
  have us: "shape unmasked = bs @ [sq, sk]" by (simp add: unmasked_def div_scalar_def qks)
  have ue: "elem unmasked (b @ [i, j]) = scaled_score query key d b i j"
    if "valid_index bs b" for b i j
    using qke'[OF that] by (simp add: unmasked_def div_scalar_def)
  have "\<exists>scores.
      (case msk of None \<Rightarrow> Inr unmasked
       | Some m \<Rightarrow> masked_fill unmasked (eq_scalar m 0) (- 1000000000)) = Inr scores \<and>
      shape scores = bs @ [sq, sk] \<and>
      (\<forall>b i j. valid_index bs b \<and> i < sq \<and> j < sk \<longrightarrow>
         elem scores (b @ [i, j]) = masked_score query key msk d b i j)"
  proof (cases msk)
    case None
    then show ?thesis by (simp add: us ue masked_score_def masked_out_def)
  next
    case (Some mt)
    have fits: "broadcast_shapes (shape unmasked) (shape (eq_scalar mt 0)) = Inr (shape unmasked)"
      using m Some by (simp add: mask_fits_def us eq_scalar_def)
    from masked_fill_regular[OF fits, of "- 1000000000"] obtain u
      where u: "masked_fill unmasked (eq_scalar mt 0) (- 1000000000) = Inr u"
        and ush: "shape u = shape unmasked"
        and ue': "\<forall>idx. valid_index (shape unmasked) idx \<longrightarrow>
          elem u idx = (if elem (eq_scalar mt 0) (bproj (shape (eq_scalar mt 0)) idx)
                        then - 1000000000 else elem unmasked idx)"
      by blast
    have "elem u (b @ [i, j]) = masked_score query key msk d b i j"
      if b: "valid_index bs b" and i: "i < sq" and j: "j < sk" for b i j
    proof -
      have "valid_index (shape unmasked) (b @ [i, j])"
        using b i j by (simp add: us valid_index_append)
      with ue' show ?thesis
        by (simp add: eq_scalar_def masked_score_def masked_out_def Some ue[OF b])
    qed
    with u ush us Some show ?thesis by simp
  qed
  then obtain scores
    where sc: "(case msk of None \<Rightarrow> Inr unmasked
       | Some m \<Rightarrow> masked_fill unmasked (eq_scalar m 0) (- 1000000000)) = Inr scores"
      and scs: "shape scores = bs @ [sq, sk]"
      and sce: "\<forall>b i j. valid_index bs b \<and> i < sq \<and> j < sk \<longrightarrow>
         elem scores (b @ [i, j]) = masked_score query key msk d b i j"
    by blast
  define attention where "attention = softmax_last scores"
  have scs': "shape scores = (bs @ [sq]) @ [sk]" using scs by simp
  have ats: "shape attention = bs @ [sq, sk]"
    using softmax_last_regular[OF scs'] by (simp add: attention_def)
  have ate0: "elem attention ((b @ [i]) @ [j]) =
      exp (elem scores ((b @ [i]) @ [j])) / (\<Sum>j'<sk. exp (elem scores ((b @ [i]) @ [j'])))"
    for b i j
    using softmax_last_regular[OF scs'] unfolding attention_def by blast
  have ate: "elem attention (b @ [i, j]) =
      exp (masked_score query key msk d b i j) /
      (\<Sum>j'<sk. exp (masked_score query key msk d b i j'))"
    if "valid_index bs b" "i < sq" "j < sk" for b i j
    using ate0[of b i j] sce that by simp
  from matmul_regular[OF ats v] obtain outp
    where out: "matmul attention value = Inr outp" and outs: "shape outp = bs @ [sq, dv]"
      and oute: "\<forall>bi i j. valid_index bs bi \<longrightarrow>
        elem outp (bi @ [i, j]) = (\<Sum>k<sk. elem attention (bi @ [i, k]) * elem value (bi @ [k, j]))"
    by blast
  have run: "ScaledDotProductAttention_forward query key value msk = Inr (outp, attention)"
    using sc[unfolded unmasked_def] out
    by (simp add: ScaledDotProductAttention_forward_def dk kt qk attention_def Let_def)
  show ?thesis
    using run ats outs ate oute by blast
qed

text \<open>
  Claim C1. For query, key and value of shapes \<open>(..., sq, d)\<close>, \<open>(..., sk, d)\<close> and
  \<open>(..., sk, dv)\<close> with vectors of size \<open>d \<ge> 1\<close>, and an optional mask that broadcasts to
  the score shape, \<open>ScaledDotProductAttention.forward\<close> returns a pair of the output and the
  attention weights. The weight at query position \<open>i\<close> and key position \<open>j\<close> is the softmax over the key
  axis of the scores, a score being the dot product of query \<open>i\<close> and key \<open>j\<close> divided by
  \<open>\<surd>d\<close>, or \<open>-10\<^sup>9\<close> where the mask entry is zero; the output at query position \<open>i\<close> is the
  sum of the value vectors weighted by the attention weights of \<open>i\<close>.
\<close>

theorem attention_forward_computes:
  assumes "shape query = bs @ [sq, d]" and "shape key = bs @ [sk, d]"
    and "shape value = bs @ [sk, dv]" and "mask_fits msk (bs @ [sq, sk])" and "0 < d"
  shows "\<exists>output attention.
           ScaledDotProductAttention_forward query key value msk = Inr (output, attention) \<and>
           shape attention = bs @ [sq, sk] \<and> shape output = bs @ [sq, dv] \<and>
           (\<forall>b i j. valid_index bs b \<and> i < sq \<and> j < sk \<longrightarrow>
              elem attention (b @ [i, j]) =
                exp (masked_score query key msk d b i j) /
                (\<Sum>j'<sk. exp (masked_score query key msk d b i j'))) \<and>
           (\<forall>b i c. valid_index bs b \<and> i < sq \<and> c < dv \<longrightarrow>
              elem output (b @ [i, c]) =
                (\<Sum>j<sk. elem attention (b @ [i, j]) * elem value (b @ [j, c])))"
  using attention_forward_regular[OF assms(1-4)] by blast

theorem attention_forward_computes_witness:
  "shape (matrix [[1, 2 :: real]]) = [] @ [1, 2] \<and>
   shape (matrix [[1, 0], [0, 1 :: real]]) = [] @ [2, 2] \<and>
   shape (matrix [[5], [7 :: real]]) = [] @ [2, 1] \<and>
   mask_fits (Some (matrix [[1, 0]])) ([] @ [1, 2]) \<and> (0::nat) < 2 \<and>
   (\<exists>output attention.
      ScaledDotProductAttention_forward (matrix [[1, 2]]) (matrix [[1, 0], [0, 1]])
        (matrix [[5], [7]]) (Some (matrix [[1, 0]])) = Inr (output, attention) \<and>
      shape attention = [1, 2] \<and> shape output = [1, 1])"
proof -
  have q: "shape (matrix [[1, 2 :: real]]) = [] @ [1, 2]" by (simp add: matrix_def)
  have k: "shape (matrix [[1, 0], [0, 1 :: real]]) = [] @ [2, 2]" by (simp add: matrix_def)
  have v: "shape (matrix [[5], [7 :: real]]) = [] @ [2, 1]" by (simp add: matrix_def)
  have m: "mask_fits (Some (matrix [[1, 0]])) ([] @ [1, 2])"
    by (simp add: mask_fits_def matrix_def broadcast_shapes_def)
  have d: "(0::nat) < 2" by simp
  from attention_forward_computes[OF q k v m d] q k v m d show ?thesis by auto
qed

lemma softmax_sum_one:
  fixes s :: "nat \<Rightarrow> real"
  assumes "0 < n"
  shows "(\<Sum>j<n. exp (s j) / (\<Sum>j'<n. exp (s j'))) = 1"
proof -
  have pos: "0 < (\<Sum>j'<n. exp (s j'))"
    using assms by (intro sum_pos) auto
  show ?thesis
    unfolding sum_divide_distrib[symmetric] using pos by simp
qed

lemma softmax_weight_bound:
  fixes s :: "nat \<Rightarrow> real"
  assumes "j0 < n"
  shows "0 \<le> exp (s j) / (\<Sum>j'<n. exp (s j')) \<and>
         exp (s j) / (\<Sum>j'<n. exp (s j')) \<le> exp (s j - s j0)"
proof -
  have le: "exp (s j0) \<le> (\<Sum>j'<n. exp (s j'))"
    using assms by (intro member_le_sum) auto
  have pos: "0 < (\<Sum>j'<n. exp (s j'))"
    using le exp_gt_zero[of "s j0"] by linarith
  have "exp (s j) / (\<Sum>j'<n. exp (s j')) \<le> exp (s j) / exp (s j0)"
    using le by (intro divide_left_mono) (auto simp: pos)
  then show ?thesis using pos by (simp add: exp_diff)
qed

text \<open>
  Claim C5, as stated, fails: a masked-out position can carry almost all of the weight of a
  row that is not fully masked. The fill value is the finite constant \<open>-10\<^sup>9\<close>; with the
  one-dimensional query \<open>-2\<cdot>10\<^sup>9\<close> and two keys \<open>1\<close>, the second one masked out, the unmasked
  score is \<open>-2\<cdot>10\<^sup>9\<close>, below the fill value, and the masked position gets at least half of
  the weight.
\<close>

theorem attention_weights_counterexample:
  "masked_out (Some (matrix [[1, 0]])) [0, 1] \<and> \<not> masked_out (Some (matrix [[1, 0]])) [0, 0] \<and>
   (case ScaledDotProductAttention_forward (matrix [[- 2000000000]]) (matrix [[1], [1]])
           (matrix [[0], [0]]) (Some (matrix [[1, 0]])) of
      Inl e \<Rightarrow> False
    | Inr (output, attention) \<Rightarrow> 1 / 2 \<le> elem attention [0, 1])"
proof -
  let ?q = "matrix [[- 2000000000 :: real]]"
  let ?k = "matrix [[1], [1 :: real]]"
  let ?v = "matrix [[0], [0 :: real]]"
  let ?m = "Some (matrix [[1, 0 :: real]])"
  have q: "shape ?q = [] @ [1, 1]" by (simp add: matrix_def)
  have k: "shape ?k = [] @ [2, 1]" by (simp add: matrix_def)
  have v: "shape ?v = [] @ [2, 1]" by (simp add: matrix_def)
  have m: "mask_fits ?m ([] @ [1, 2])"
    by (simp add: mask_fits_def matrix_def broadcast_shapes_def)
  have m1: "masked_out ?m [0, 1]" by (simp add: masked_out_def matrix_def bproj_def)
  have m0: "\<not> masked_out ?m [0, 0]" by (simp add: masked_out_def matrix_def bproj_def)
  from attention_forward_regular[OF q k v m] obtain outp attention
    where run: "ScaledDotProductAttention_forward ?q ?k ?v ?m = Inr (outp, attention)"
      and w: "\<forall>b i j. valid_index [] b \<and> i < 1 \<and> j < 2 \<longrightarrow>
              elem attention (b @ [i, j]) =
                exp (masked_score ?q ?k ?m 1 b i j) /
                (\<Sum>j'<2. exp (masked_score ?q ?k ?m 1 b i j'))"
    by blast
  have s0: "masked_score ?q ?k ?m (Suc 0) [] 0 0 = - 2000000000"
    using m0 by (simp add: masked_score_def scaled_score_def matrix_def)
  have s1: "masked_score ?q ?k ?m (Suc 0) [] 0 (Suc 0) = - 1000000000"
    using m1 by (simp add: masked_score_def)
  have two: "{..<2::nat} = {0, Suc 0}" by auto
  from w have "elem attention ([] @ [0, 1]) =
      exp (masked_score ?q ?k ?m 1 [] 0 1) / (\<Sum>j'<2. exp (masked_score ?q ?k ?m 1 [] 0 j'))"
    by simp
  then have a: "elem attention [0, 1] =
      exp (- 1000000000) / (exp (- 2000000000) + exp (- 1000000000))"
    by (simp add: two s0 s1)
  have "exp (- 2000000000 :: real) \<le> exp (- 1000000000)" by simp
  then have "1 / 2 \<le> exp (- 1000000000) / (exp (- 2000000000) + exp (- 1000000000 :: real))"
    by (simp add: field_simps add_pos_pos)
  with a run m0 m1 show ?thesis by simp
qed

text \<open>
  Claim C5, amended. With the entries taken as real numbers (no rounding, no overflow),
  for query and key vectors of size \<open>d \<ge> 1\<close>, every mask that broadcasts to the score shape
  and every query position with at least one key, the attention weights returned by
  \<open>ScaledDotProductAttention.forward\<close> sum to 1 along the key axis, whether or not the row
  is fully masked. The weight of a masked-out position is non-negative and at
  most \<open>exp (-10\<^sup>9 - s)\<close> for the scaled score \<open>s\<close> of any unmasked key of the same row: it is
  close to 0 as long as some unmasked score lies well above \<open>-10\<^sup>9\<close>.
\<close>

theorem attention_weights_sum_to_one:
  assumes "shape query = bs @ [sq, d]" and "shape key = bs @ [sk, d]"
    and "shape value = bs @ [sk, dv]" and "mask_fits msk (bs @ [sq, sk])" and "0 < sk"
    and "0 < d"
  shows "\<exists>output attention.
           ScaledDotProductAttention_forward query key value msk = Inr (output, attention) \<and>
           (\<forall>b i. valid_index bs b \<and> i < sq \<longrightarrow>
              (\<Sum>j<sk. elem attention (b @ [i, j])) = 1 \<and>
              (\<forall>j j0. j < sk \<and> j0 < sk \<and> masked_out msk (b @ [i, j]) \<and>
                  \<not> masked_out msk (b @ [i, j0]) \<longrightarrow>
                 0 \<le> elem attention (b @ [i, j]) \<and>
                 elem attention (b @ [i, j]) \<le>
                   exp (- 1000000000 - scaled_score query key d b i j0)))"
proof -
  from attention_forward_regular[OF assms(1-4)] obtain outp attention
    where run: "ScaledDotProductAttention_forward query key value msk = Inr (outp, attention)"
      and w: "\<forall>b i j. valid_index bs b \<and> i < sq \<and> j < sk \<longrightarrow>
              elem attention (b @ [i, j]) =
                exp (masked_score query key msk d b i j) /
                (\<Sum>j'<sk. exp (masked_score query key msk d b i j'))"
    by blast
  have "(\<Sum>j<sk. elem attention (b @ [i, j])) = 1 \<and>
        (\<forall>j j0. j < sk \<and> j0 < sk \<and> masked_out msk (b @ [i, j]) \<and>
            \<not> masked_out msk (b @ [i, j0]) \<longrightarrow>
           0 \<le> elem attention (b @ [i, j]) \<and>
           elem attention (b @ [i, j]) \<le> exp (- 1000000000 - scaled_score query key d b i j0))"
    if b: "valid_index bs b" and i: "i < sq" for b i
  proof -
    let ?s = "masked_score query key msk d b i"
    have e: "elem attention (b @ [i, j]) = exp (?s j) / (\<Sum>j'<sk. exp (?s j'))" if "j < sk" for j
      using w b i that by simp
    have "(\<Sum>j<sk. elem attention (b @ [i, j])) = (\<Sum>j<sk. exp (?s j) / (\<Sum>j'<sk. exp (?s j')))"
      by (rule sum.cong) (simp_all add: e)
    then have one: "(\<Sum>j<sk. elem attention (b @ [i, j])) = 1"
      by (simp add: softmax_sum_one[OF assms(5)])
    have bound: "0 \<le> elem attention (b @ [i, j]) \<and>
        elem attention (b @ [i, j]) \<le> exp (- 1000000000 - scaled_score query key d b i j0)"
      if j: "j < sk" and j0: "j0 < sk" and mj: "masked_out msk (b @ [i, j])"
        and mj0: "\<not> masked_out msk (b @ [i, j0])" for j j0
    proof -
      have sj: "?s j = - 1000000000" using mj by (simp add: masked_score_def)
      have sj0: "?s j0 = scaled_score query key d b i j0" using mj0 by (simp add: masked_score_def)
      from softmax_weight_bound[OF j0, of ?s j] show ?thesis
        by (simp add: e[OF j] sj sj0)
    qed
    from one bound show ?thesis by blast
  qed
  with run show ?thesis by blast
qed

theorem attention_weights_sum_to_one_witness:
  "shape (matrix [[1, 2 :: real]]) = [] @ [1, 2] \<and>
   shape (matrix [[1, 0], [0, 1 :: real]]) = [] @ [2, 2] \<and>
   shape (matrix [[5], [7 :: real]]) = [] @ [2, 1] \<and>
   mask_fits (Some (matrix [[1, 0]])) ([] @ [1, 2]) \<and> (0::nat) < 2 \<and> (0::nat) < 2 \<and>
   masked_out (Some (matrix [[1, 0]])) ([] @ [0, 1]) \<and>
   \<not> masked_out (Some (matrix [[1, 0]])) ([] @ [0, 0]) \<and>
   (\<exists>output attention.
      ScaledDotProductAttention_forward (matrix [[1, 2]]) (matrix [[1, 0], [0, 1]])
        (matrix [[5], [7]]) (Some (matrix [[1, 0]])) = Inr (output, attention) \<and>
      (\<Sum>j<2. elem attention ([] @ [0, j])) = 1 \<and>
      elem attention ([] @ [0, 1]) \<le>
        exp (- 1000000000 - scaled_score (matrix [[1, 2]]) (matrix [[1, 0], [0, 1]]) 2 [] 0 0))"
proof -
  have q: "shape (matrix [[1, 2 :: real]]) = [] @ [1, 2]" by (simp add: matrix_def)
  have k: "shape (matrix [[1, 0], [0, 1 :: real]]) = [] @ [2, 2]" by (simp add: matrix_def)
  have v: "shape (matrix [[5], [7 :: real]]) = [] @ [2, 1]" by (simp add: matrix_def)
  have m: "mask_fits (Some (matrix [[1, 0]])) ([] @ [1, 2])"
    by (simp add: mask_fits_def matrix_def broadcast_shapes_def)
  have n: "(0::nat) < 2" by simp
  have m1: "masked_out (Some (matrix [[1, 0]])) ([] @ [0, 1])"
    by (simp add: masked_out_def matrix_def bproj_def)
  have m0: "\<not> masked_out (Some (matrix [[1, 0]])) ([] @ [0, 0])"
    by (simp add: masked_out_def matrix_def bproj_def)
  from attention_weights_sum_to_one[OF q k v m n n] obtain outp attention
    where run: "ScaledDotProductAttention_forward (matrix [[1, 2]]) (matrix [[1, 0], [0, 1]])
        (matrix [[5], [7]]) (Some (matrix [[1, 0]])) = Inr (outp, attention)"
      and p: "\<forall>b i. valid_index [] b \<and> i < 1 \<longrightarrow>
              (\<Sum>j<2. elem attention (b @ [i, j])) = 1 \<and>
              (\<forall>j j0. j < 2 \<and> j0 < 2 \<and> masked_out (Some (matrix [[1, 0]])) (b @ [i, j]) \<and>
                  \<not> masked_out (Some (matrix [[1, 0]])) (b @ [i, j0]) \<longrightarrow>
                 0 \<le> elem attention (b @ [i, j]) \<and>
                 elem attention (b @ [i, j]) \<le>
                   exp (- 1000000000 -
                     scaled_score (matrix [[1, 2]]) (matrix [[1, 0], [0, 1]]) 2 b i j0))"
    by blast
  have vi: "valid_index [] [] \<and> (0::nat) < 1" by simp
  from p have p0: "(\<Sum>j<2. elem attention ([] @ [0, j])) = 1 \<and>
              (\<forall>j j0. j < 2 \<and> j0 < 2 \<and> masked_out (Some (matrix [[1, 0]])) ([] @ [0, j]) \<and>
                  \<not> masked_out (Some (matrix [[1, 0]])) ([] @ [0, j0]) \<longrightarrow>
                 0 \<le> elem attention ([] @ [0, j]) \<and>
                 elem attention ([] @ [0, j]) \<le>
                   exp (- 1000000000 -
                     scaled_score (matrix [[1, 2]]) (matrix [[1, 0], [0, 1]]) 2 [] 0 j0))"
    using vi by blast
  have "(1::nat) < 2 \<and> (0::nat) < 2 \<and> masked_out (Some (matrix [[1, 0]])) ([] @ [0, 1]) \<and>
      \<not> masked_out (Some (matrix [[1, 0]])) ([] @ [0, 0])"
    using m1 m0 by simp
  with p0[THEN conjunct2, rule_format, of 1 0]
  have "elem attention ([] @ [0, 1]) \<le>
        exp (- 1000000000 - scaled_score (matrix [[1, 2]]) (matrix [[1, 0], [0, 1]]) 2 [] 0 0)"
    by blast
  with p0 run q k v m n m1 m0 show ?thesis by blast
qed

section \<open>Properties of the construction of multi-head attention\<close>

lemma nn_Linear_ok:
  "0 \<le> i \<Longrightarrow> 0 \<le> out \<Longrightarrow>
   nn_Linear inits i out =
     Inr \<lparr>in_features = nat i, out_features = nat out,
          lin_weight = \<lparr>shape = [nat out, nat i], elem = inits 0\<rparr>,
          lin_bias = \<lparr>shape = [nat out], elem = inits 1\<rparr>\<rparr>"
  by (simp add: nn_Linear_def)

text \<open>
  Claim C6. Constructing \<open>MultiHeadAttention\<close> with an \<open>embed_size\<close> that \<open>num_heads\<close> does not
  divide raises at construction time (the assertion, or the division by zero of \<open>%\<close> for
  \<open>num_heads = 0\<close>). For a non-negative \<open>embed_size\<close> with \<open>embed_size % num_heads == 0\<close> the
  construction succeeds, and the constructed object has
  \<open>num_heads * head_dim = embed_size\<close>, so the reshape into heads at forward time finds the
  embedding dimension split evenly.
\<close>

theorem mha_init_divisibility:
  "(\<not> n_heads dvd embed_size \<longrightarrow>
      (\<exists>e. MultiHeadAttention_init inits embed_size n_heads = Inl e)) \<and>
   (n_heads \<noteq> 0 \<and> embed_size mod n_heads \<noteq> 0 \<longrightarrow>
      MultiHeadAttention_init inits embed_size n_heads = Inl AssertionError) \<and>
   (n_heads \<noteq> 0 \<and> embed_size mod n_heads = 0 \<and> 0 \<le> embed_size \<longrightarrow>
      (\<exists>m. MultiHeadAttention_init inits embed_size n_heads = Inr m \<and>
           num_heads m = n_heads \<and> head_dim m = embed_size div n_heads \<and>
           num_heads m * head_dim m = embed_size))"
proof (intro conjI impI)
  assume "\<not> n_heads dvd embed_size"
  then have "n_heads = 0 \<or> embed_size mod n_heads \<noteq> 0"
    by (auto simp: dvd_eq_mod_eq_0)
  then show "\<exists>e. MultiHeadAttention_init inits embed_size n_heads = Inl e"
    by (auto simp: MultiHeadAttention_init_def)
next
  assume "n_heads \<noteq> 0 \<and> embed_size mod n_heads \<noteq> 0"
  then show "MultiHeadAttention_init inits embed_size n_heads = Inl AssertionError"
    by (simp add: MultiHeadAttention_init_def)
next
  assume a: "n_heads \<noteq> 0 \<and> embed_size mod n_heads = 0 \<and> 0 \<le> embed_size"
  then have "n_heads * (embed_size div n_heads) = embed_size"
    by (simp add: mod_0_imp_dvd)
  with a show "\<exists>m. MultiHeadAttention_init inits embed_size n_heads = Inr m \<and>
           num_heads m = n_heads \<and> head_dim m = embed_size div n_heads \<and>
           num_heads m * head_dim m = embed_size"
    by (simp add: MultiHeadAttention_init_def nn_Linear_ok)
qed

theorem mha_init_divisibility_witness:
  "\<not> (8::int) dvd 30 \<and> (8::int) \<noteq> 0 \<and> (30::int) mod 8 \<noteq> 0 \<and>
   MultiHeadAttention_init (\<lambda>k idx. 0) 30 8 = Inl AssertionError \<and>
   (256::int) mod 8 = 0 \<and> (0::int) \<le> 256 \<and>
   (\<exists>m. MultiHeadAttention_init (\<lambda>k idx. 0) 256 8 = Inr m \<and>
        num_heads m = 8 \<and> head_dim m = 32 \<and> num_heads m * head_dim m = 256)"
proof -
  have a: "(8::int) \<noteq> 0 \<and> (30::int) mod 8 \<noteq> 0" by simp
  have b: "(8::int) \<noteq> 0 \<and> (256::int) mod 8 = 0 \<and> (0::int) \<le> 256" by simp
  have c: "\<not> (8::int) dvd 30" by presburger
  from mha_init_divisibility[of 8 30 "\<lambda>k idx. 0"] a
  have 1: "MultiHeadAttention_init (\<lambda>k idx. 0) 30 8 = Inl AssertionError" by blast
  from mha_init_divisibility[of 8 256 "\<lambda>k idx. 0"] b
  have 2: "\<exists>m. MultiHeadAttention_init (\<lambda>k idx. 0) 256 8 = Inr m \<and>
        num_heads m = 8 \<and> head_dim m = 32 \<and> num_heads m * head_dim m = 256"
    by simp
  from 1 2 a b c show ?thesis by blast
qed

section \<open>Properties of the positional encoding\<close>

lemma broadcast_shapes_2:
  "broadcast_shapes [a, b] [c, d] =
     (if (b = d \<or> b = 1 \<or> d = 1) \<and> (a = c \<or> a = 1 \<or> c = 1)
      then Inr [if a = 1 then c else a, if b = 1 then d else b] else Inl RuntimeError)"
  by (simp add: broadcast_shapes_def)

lemma broadcast_shapes_2_1:
  "broadcast_shapes [a, b] [d] =
     (if b = d \<or> b = 1 \<or> d = 1 then Inr [a, if b = 1 then d else b] else Inl RuntimeError)"
  by (simp add: broadcast_shapes_def)

lemma broadcast_shapes_3:
  "broadcast_shapes [a, b, c] [a', b', c'] =
     (if (c = c' \<or> c = 1 \<or> c' = 1) \<and> (b = b' \<or> b = 1 \<or> b' = 1) \<and> (a = a' \<or> a = 1 \<or> a' = 1)
      then Inr [if a = 1 then a' else a, if b = 1 then b' else b, if c = 1 then c' else c]
      else Inl RuntimeError)"
  by (simp add: broadcast_shapes_def)

lemma inverse_frequency:
  fixes p :: real
  assumes "0 < e"
  shows "p * exp (real k * (- ln 10000 / e)) = p / 10000 powr (real k / e)"
proof -
  have "10000 powr (real k / e) = exp (real k * ln 10000 / e)"
    by (simp add: powr_def)
  moreover have "exp (real k * (- ln 10000 / e)) = inverse (exp (real k * ln 10000 / e))"
    by (simp add: exp_minus[symmetric])
  ultimately show ?thesis by (simp add: divide_inverse)
qed

lemma PositionalEncoding_init_table:
  assumes "PositionalEncoding_init embed_size max_len = Inr P"
  shows "0 \<le> embed_size \<and> 0 \<le> max_len \<and> shape (pe P) = [1, nat max_len, nat embed_size] \<and>
         (\<forall>p c. p < nat max_len \<and> c < nat embed_size \<longrightarrow>
            elem (pe P) [0, p, c] =
              (if even c then sin (real p * exp (real c * (- ln 10000 / real_of_int embed_size)))
               else cos (real p * exp (real (c - 1) * (- ln 10000 / real_of_int embed_size)))))"
proof -
  let ?E = "nat embed_size" and ?L = "nat max_len"
  let ?h = "(?E + 2 - 1) div 2"
  from assms have nn: "0 \<le> embed_size" "0 \<le> max_len"
    by (auto simp: PositionalEncoding_init_def split: if_splits)
  define position where "position = unsqueeze 1 (arange ?L 1)"
  define div_term where "div_term = tensor_map exp
      (tensor_map (\<lambda>x. x * (- ln 10000 / real_of_int embed_size)) (arange ?E 2))"
  have ps: "shape position = [?L, 1]"
    by (simp add: position_def unsqueeze_def arange_def)
  have ds: "shape div_term = [?h]"
    by (simp add: div_term_def tensor_map_def arange_def)
  define angles where "angles =
      \<lparr>shape = [?L, ?h],
       elem = (\<lambda>idx. elem position (bproj (shape position) idx) * elem div_term (bproj (shape div_term) idx))\<rparr>"
  have mul: "tensor_mul position div_term = Inr angles"
    by (simp add: tensor_mul_def ps ds broadcast_shapes_2_1 angles_def)
  have ang: "elem angles [p, k] = real p * exp (real (k * 2) * (- ln 10000 / real_of_int embed_size))"
    if "k < ?h" "p < ?L" for p k
    using that
    by (simp add: angles_def ps ds bproj_def position_def unsqueeze_def arange_def div_term_def
        tensor_map_def)
  from assms nn have "and_then (tensor_mul position div_term) (\<lambda>angles.
      and_then (assign_columns 0 (zeros [?L, ?E]) (tensor_map sin angles)) (\<lambda>pe1.
      and_then (assign_columns 1 pe1 (tensor_map cos angles)) (\<lambda>pe2.
        Inr \<lparr>pe = unsqueeze 0 pe2\<rparr>))) = Inr P"
    unfolding PositionalEncoding_init_def Let_def position_def div_term_def by simp
  then have "and_then (assign_columns 0 (zeros [?L, ?E]) (tensor_map sin angles)) (\<lambda>pe1.
      and_then (assign_columns 1 pe1 (tensor_map cos angles)) (\<lambda>pe2.
        Inr \<lparr>pe = unsqueeze 0 pe2\<rparr>)) = Inr P"
    unfolding mul by simp
  then obtain pe1 pe2
    where a1: "assign_columns 0 (zeros [?L, ?E]) (tensor_map sin angles) = Inr pe1"
      and a2: "assign_columns 1 pe1 (tensor_map cos angles) = Inr pe2"
      and P: "P = \<lparr>pe = unsqueeze 0 pe2\<rparr>"
    unfolding and_then_eq_Inr by auto
  have as: "shape (tensor_map sin angles) = [?L, ?h]" "shape (tensor_map cos angles) = [?L, ?h]"
    "shape angles = [?L, ?h]"
    by (simp_all add: tensor_map_def angles_def)
  from a1 have pe1: "pe1 = \<lparr>shape = [?L, ?E],
      elem = (\<lambda>idx. if 0 \<le> idx ! 1 \<and> (idx ! 1 - 0) mod 2 = 0
                     then elem (tensor_map sin angles)
                            (bproj (shape (tensor_map sin angles)) [idx ! 0, (idx ! 1 - 0) div 2])
                     else elem (zeros [?L, ?E]) idx)\<rparr>"
    by (auto simp: assign_columns_def Let_def zeros_def split: if_splits)
  from a2 have fit2: "broadcast_shapes [?L, (?E + 1 - 1) div 2] [?L, ?h] = Inr [?L, (?E + 1 - 1) div 2]"
    and pe2: "pe2 = \<lparr>shape = [?L, ?E],
      elem = (\<lambda>idx. if 1 \<le> idx ! 1 \<and> (idx ! 1 - 1) mod 2 = 0
                     then elem (tensor_map cos angles)
                            (bproj (shape (tensor_map cos angles)) [idx ! 0, (idx ! 1 - 1) div 2])
                     else elem pe1 idx)\<rparr>"
    by (auto simp: assign_columns_def Let_def pe1 as split: if_splits)
  have sh: "shape (pe P) = [1, ?L, ?E]"
    by (simp add: P unsqueeze_def pe2)
  have entry: "elem (pe P) [0, p, c] =
      (if even c then sin (real p * exp (real c * (- ln 10000 / real_of_int embed_size)))
       else cos (real p * exp (real (c - 1) * (- ln 10000 / real_of_int embed_size))))"
    if p: "p < ?L" and c: "c < ?E" for p c
  proof (cases "even c")
    case True
    then have h: "c div 2 < ?h" using c by auto
    have c2: "c div 2 * 2 = c" using True by auto
    have notodd: "(Suc 0 \<le> c \<and> (c - Suc 0) mod 2 = 0) = False"
      using True by (cases c) (auto simp: mod_2_eq_odd)
    have "elem (pe P) [0, p, c] = elem pe1 [p, c]"
      by (simp add: P unsqueeze_def pe2 notodd)
    also have "\<dots> = sin (elem angles (bproj [?L, ?h] [p, c div 2]))"
      using True by (simp add: pe1 as tensor_map_def mod_2_eq_odd)
    also have "bproj [?L, ?h] [p, c div 2] = [p, c div 2]"
      using p h by (intro bproj_valid) simp
    finally show ?thesis using True ang[OF h p] by (simp add: c2)
  next
    case False
    then have c1: "1 \<le> c" "(c - 1) mod 2 = 0" by (auto simp: mod_2_eq_odd elim: oddE)
    have h: "(c - 1) div 2 < ?h" using c c1 by linarith
    have c2: "(c - 1) div 2 * 2 = c - 1" using c1 by presburger
    have "elem (pe P) [0, p, c] = cos (elem angles (bproj [?L, ?h] [p, (c - 1) div 2]))"
      using c1 by (simp add: P unsqueeze_def pe2 as tensor_map_def)
    also have "bproj [?L, ?h] [p, (c - 1) div 2] = [p, (c - 1) div 2]"
      using p h by (intro bproj_valid) simp
    finally show ?thesis using False ang[OF h p] by (simp add: c2)
  qed
  from nn sh entry show ?thesis by blast
qed

lemma PositionalEncoding_init_ok:
  assumes "0 \<le> embed_size" and "0 \<le> max_len" and "even embed_size"
  shows "\<exists>P. PositionalEncoding_init embed_size max_len = Inr P"
proof -
  let ?E = "nat embed_size" and ?L = "nat max_len"
  have ev: "even ?E" using assms(1,3) by (simp add: even_nat_iff)
  have h: "Suc ?E div 2 = ?E div 2" using ev by (auto elim: evenE)
  show ?thesis
    using assms(1,2)
    by (simp add: PositionalEncoding_init_def Let_def tensor_mul_def unsqueeze_def arange_def
        tensor_map_def broadcast_shapes_2_1 broadcast_shapes_2 assign_columns_def zeros_def h)
qed

lemma PositionalEncoding_forward_regular:
  assumes "shape (pe P) = [1, max_len, e]" and "shape x = [B, L, e]" and "L \<le> max_len"
  shows "\<exists>y. PositionalEncoding_forward P x = Inr y \<and> shape y = [B, L, e] \<and>
           (\<forall>b p c. b < B \<and> p < L \<and> c < e \<longrightarrow>
              elem y [b, p, c] = elem x [b, p, c] + elem (pe P) [0, p, c])"
proof -
  have n: "size_dim x 1 = Inr L"
    by (simp add: size_dim_def norm_dim_def assms(2))
  have sl: "shape (slice_positions L (pe P)) = [1, L, e]"
    using assms(3) by (simp add: slice_positions_def assms(1))
  have bp: "bproj [Suc 0, L, e] [b, p, c] = [0, p, c]" if "p < L" "c < e" for b p c
    using that by (auto simp: bproj_def)
  have bx: "bproj [B, L, e] [b, p, c] = [b, p, c]" if "b < B" "p < L" "c < e" for b p c
    using that by (intro bproj_valid) (simp add: valid_index_def)
  show ?thesis
    by (simp add: PositionalEncoding_forward_def n tensor_add_def assms(2) sl broadcast_shapes_3
        bp bx) (simp add: slice_positions_def)
qed

text \<open>
  Claim C7. The positional encoding table is computed from \<open>embed_size\<close> and \<open>max_len\<close> alone.
  Whenever the constructor returns (it does for every even \<open>embed_size \<ge> 0\<close> and
  \<open>max_len \<ge> 0\<close>), the table has shape \<open>(1, max_len, embed_size)\<close>, its entry at position \<open>p\<close>
  and dimension \<open>2i\<close> is \<open>sin (p / 10000 ^ (2i / embed_size))\<close> and its entry at dimension
  \<open>2i + 1\<close> is \<open>cos (p / 10000 ^ (2i / embed_size))\<close>. Applied to embeddings of a sequence of
  \<open>L \<le> max_len\<close> positions, \<open>forward\<close> adds the first \<open>L\<close> rows of the table; the result at a
  position depends only on the embedding entry and the position, so two applications to
  the same embedding at the same position give the same result.
\<close>

theorem positional_encoding_table:
  "(0 \<le> embed_size \<and> 0 \<le> max_len \<and> even embed_size \<longrightarrow>
      (\<exists>P. PositionalEncoding_init embed_size max_len = Inr P)) \<and>
   (\<forall>P. PositionalEncoding_init embed_size max_len = Inr P \<longrightarrow>
      shape (pe P) = [1, nat max_len, nat embed_size] \<and>
      (\<forall>p i. p < nat max_len \<and> 2 * i < nat embed_size \<longrightarrow>
         elem (pe P) [0, p, 2 * i] =
           sin (real p / 10000 powr (real (2 * i) / real_of_int embed_size))) \<and>
      (\<forall>p i. p < nat max_len \<and> 2 * i + 1 < nat embed_size \<longrightarrow>
         elem (pe P) [0, p, 2 * i + 1] =
           cos (real p / 10000 powr (real (2 * i) / real_of_int embed_size))) \<and>
      (\<forall>x B L. shape x = [B, L, nat embed_size] \<and> L \<le> nat max_len \<longrightarrow>
         (\<exists>y. PositionalEncoding_forward P x = Inr y \<and> shape y = [B, L, nat embed_size] \<and>
              (\<forall>b p c. b < B \<and> p < L \<and> c < nat embed_size \<longrightarrow>
                 elem y [b, p, c] = elem x [b, p, c] + elem (pe P) [0, p, c]))) \<and>
      (\<forall>x x' B B' L L' y y' b b' p c.
         shape x = [B, L, nat embed_size] \<and> L \<le> nat max_len \<and>
         shape x' = [B', L', nat embed_size] \<and> L' \<le> nat max_len \<and>
         PositionalEncoding_forward P x = Inr y \<and> PositionalEncoding_forward P x' = Inr y' \<and>
         b < B \<and> b' < B' \<and> p < L \<and> p < L' \<and> c < nat embed_size \<and>
         elem x [b, p, c] = elem x' [b', p, c] \<longrightarrow>
         elem y [b, p, c] = elem y' [b', p, c]))"
proof (intro conjI allI impI)
  assume "0 \<le> embed_size \<and> 0 \<le> max_len \<and> even embed_size"
  then show "\<exists>P. PositionalEncoding_init embed_size max_len = Inr P"
    by (simp add: PositionalEncoding_init_ok)
next
  fix P assume init: "PositionalEncoding_init embed_size max_len = Inr P"
  from PositionalEncoding_init_table[OF init]
  show "shape (pe P) = [1, nat max_len, nat embed_size]" by simp
next
  fix P p i
  assume init: "PositionalEncoding_init embed_size max_len = Inr P"
    and b: "p < nat max_len \<and> 2 * i < nat embed_size"
  then have pos: "0 < real_of_int embed_size" by auto
  from PositionalEncoding_init_table[OF init] b
  have "elem (pe P) [0, p, 2 * i] =
      sin (real p * exp (real (2 * i) * (- ln 10000 / real_of_int embed_size)))"
    by simp
  then show "elem (pe P) [0, p, 2 * i] =
      sin (real p / 10000 powr (real (2 * i) / real_of_int embed_size))"
    by (simp only: inverse_frequency[OF pos])
next
  fix P p i
  assume init: "PositionalEncoding_init embed_size max_len = Inr P"
    and b: "p < nat max_len \<and> 2 * i + 1 < nat embed_size"
  then have pos: "0 < real_of_int embed_size" by auto
  from PositionalEncoding_init_table[OF init] b
  have "elem (pe P) [0, p, 2 * i + 1] =
      cos (real p * exp (real (2 * i) * (- ln 10000 / real_of_int embed_size)))"
    by simp
  then show "elem (pe P) [0, p, 2 * i + 1] =
      cos (real p / 10000 powr (real (2 * i) / real_of_int embed_size))"
    by (simp only: inverse_frequency[OF pos])
next
  fix P and x :: "real tensor" and B L
  assume init: "PositionalEncoding_init embed_size max_len = Inr P"
    and x: "shape x = [B, L, nat embed_size] \<and> L \<le> nat max_len"
  from PositionalEncoding_init_table[OF init]
  have sh: "shape (pe P) = [1, nat max_len, nat embed_size]" by simp
  from PositionalEncoding_forward_regular[OF sh] x
  show "\<exists>y. PositionalEncoding_forward P x = Inr y \<and> shape y = [B, L, nat embed_size] \<and>
          (\<forall>b p c. b < B \<and> p < L \<and> c < nat embed_size \<longrightarrow>
             elem y [b, p, c] = elem x [b, p, c] + elem (pe P) [0, p, c])"
    by blast
next
  fix P and x x' :: "real tensor" and B B' L L' y y' b b' p c
  assume init: "PositionalEncoding_init embed_size max_len = Inr P"
    and a: "shape x = [B, L, nat embed_size] \<and> L \<le> nat max_len \<and>
         shape x' = [B', L', nat embed_size] \<and> L' \<le> nat max_len \<and>
         PositionalEncoding_forward P x = Inr y \<and> PositionalEncoding_forward P x' = Inr y' \<and>
         b < B \<and> b' < B' \<and> p < L \<and> p < L' \<and> c < nat embed_size \<and>
         elem x [b, p, c] = elem x' [b', p, c]"
  from PositionalEncoding_init_table[OF init]
  have sh: "shape (pe P) = [1, nat max_len, nat embed_size]" by simp
  from PositionalEncoding_forward_regular[OF sh, of x B L] a
  have 1: "elem y [b, p, c] = elem x [b, p, c] + elem (pe P) [0, p, c]" by auto
  from PositionalEncoding_forward_regular[OF sh, of x' B' L'] a
  have 2: "elem y' [b', p, c] = elem x' [b', p, c] + elem (pe P) [0, p, c]" by auto
  from 1 2 a show "elem y [b, p, c] = elem y' [b', p, c]" by simp
qed

theorem positional_encoding_table_witness:
  "(0::int) \<le> 256 \<and> (0::int) \<le> 1000 \<and> even (256::int) \<and>
   (\<exists>P. PositionalEncoding_init 256 1000 = Inr P \<and> shape (pe P) = [1, nat 1000, nat 256] \<and>
        elem (pe P) [0, 7, 2 * 3] = sin (real 7 / 10000 powr (real (2 * 3) / real_of_int 256)) \<and>
        elem (pe P) [0, 7, 2 * 3 + 1] = cos (real 7 / 10000 powr (real (2 * 3) / real_of_int 256)))"
proof -
  have h: "(0::int) \<le> 256 \<and> (0::int) \<le> 1000 \<and> even (256::int)" by simp
  note t = positional_encoding_table[of 256 1000]
  from t[THEN conjunct1, rule_format, OF h]
  obtain P where P: "PositionalEncoding_init 256 1000 = Inr P" by (rule exE)
  note t2 = t[THEN conjunct2, rule_format, OF P]
  have b1: "(7::nat) < nat 1000 \<and> 2 * (3::nat) < nat 256" by simp
  have b2: "(7::nat) < nat 1000 \<and> 2 * (3::nat) + 1 < nat 256" by simp
  note sh = t2[THEN conjunct1]
  note s = t2[THEN conjunct2, THEN conjunct1, rule_format, OF b1]
  note c = t2[THEN conjunct2, THEN conjunct2, THEN conjunct1, rule_format, OF b2]
  show ?thesis
    by (intro conjI exI[of _ P]) (simp_all only: P sh s c, simp_all)
qed

section \<open>Shapes through the layers\<close>

lemma yields_shapeI: "r = Inr y \<Longrightarrow> shape y = s \<Longrightarrow> yields_shape r s"
  by (simp add: yields_shape_def)

lemma yields_shape_bind:
  assumes "yields_shape m s" and "\<And>y. m = Inr y \<Longrightarrow> shape y = s \<Longrightarrow> yields_shape (f y) s'"
  shows "yields_shape (and_then m f) s'"
  using assms by (auto simp: yields_shape_def)

lemma valid_index_Cons:
  "valid_index (n # ns) idx \<longleftrightarrow> (\<exists>i rest. idx = i # rest \<and> i < n \<and> valid_index ns rest)"
  by (auto simp: valid_index_def list_all2_Cons2)

lemma set_indices: "set (indices s) = {idx. valid_index s idx}"
proof (induction s)
  case Nil
  show ?case by auto
next
  case (Cons n ns)
  show ?case
    by (auto simp: valid_index_Cons Cons.IH[unfolded set_eq_iff, simplified])
qed

lemma Embedding_forward_shape:
  assumes "\<forall>idx. valid_index (shape ids) idx \<longrightarrow>
             0 \<le> elem ids idx \<and> elem ids idx < int (num_embeddings e)"
  shows "yields_shape (Embedding_forward e ids) (shape ids @ [embedding_dim e])"
proof -
  have "\<not> list_ex (\<lambda>idx. elem ids idx < 0 \<or> int (num_embeddings e) \<le> elem ids idx)
          (indices (shape ids))"
    using assms by (auto simp: list_ex_iff set_indices)
  then show ?thesis
    by (simp add: Embedding_forward_def yields_shape_def)
qed

lemma Linear_forward_shape:
  assumes "linear_dims l i out" and "shape x = pre @ [i]"
  shows "yields_shape (Linear_forward l x) (pre @ [out])"
  using assms by (simp add: Linear_forward_def yields_shape_def linear_dims_def)

lemma LayerNorm_forward_shape:
  assumes "normalized_size n = e" and "shape x = pre @ [e]"
  shows "yields_shape (LayerNorm_forward n x) (pre @ [e])"
  using assms by (simp add: LayerNorm_forward_def yields_shape_def)

lemma shape_dropout [simp]: "shape (dropout p tr keep x) = shape x"
  by (simp add: dropout_def)

lemma shape_tensor_map [simp]: "shape (tensor_map f x) = shape x"
  by (simp add: tensor_map_def)

lemma tensor_add_shape:
  assumes "shape a = s" and "shape b = s"
  shows "yields_shape (tensor_add a b) s"
  using assms by (simp add: tensor_add_def yields_shape_def broadcast_shapes_same)

lemma transpose_1_2_shape:
  assumes "shape x = [a, b, c, d]"
  shows "yields_shape (transpose_dims 1 2 x) [a, c, b, d]"
  using assms by (simp add: transpose_dims_def norm_dim_def swap_def yields_shape_def)

lemma view_split_heads:
  assumes "shape x = [B, S, h * d]" and "0 < B" and "0 < h" and "0 < d"
  shows "yields_shape (view [int B, - 1, int h, int d] x) [B, S, h, d]"
proof -
  have pos: "0 < B * (h * d)" using assms by simp
  have n: "numel (shape x) = S * (B * (h * d))" by (simp add: numel_def assms(1))
  have "view [int B, - 1, int h, int d] x = Inr (reshaped [B, S, h, d] x)"
    using pos by (simp add: view_def Let_def n)
  then show ?thesis by (simp add: yields_shape_def reshaped_def)
qed

lemma view_merge:
  assumes "shape x = [B, S, h, d]" and "0 < B" and "0 < e" and "e = h * d"
  shows "yields_shape (view [int B, - 1, int e] x) [B, S, e]"
proof -
  have pos: "0 < B * e" using assms by simp
  have n: "numel (shape x) = S * (B * e)" by (simp add: numel_def assms(1,4))
  have "view [int B, - 1, int e] x = Inr (reshaped [B, S, e] x)"
    using pos by (simp add: view_def Let_def n)
  then show ?thesis by (simp add: yields_shape_def reshaped_def)
qed

lemma view_merge_heads:
  assumes "shape x = [B, S, h, d]" and "0 < B" and "0 < h" and "0 < d"
  shows "yields_shape (view [int B, - 1, int h * int d] x) [B, S, h * d]"
proof -
  have eq: "int h * int d = int (h * d)" by simp
  show ?thesis
    unfolding eq using assms by (intro view_merge) simp_all
qed

lemma attention_forward_shape:
  assumes "shape q = [B, h, sq, d]" and "shape k = [B, h, sk, d]" and "shape v = [B, h, sk, d]"
    and "mask_fits msk [B, h, sq, sk]"
  shows "\<exists>outp w. ScaledDotProductAttention_forward q k v msk = Inr (outp, w) \<and>
           shape outp = [B, h, sq, d]"
  using attention_forward_regular[of q "[B, h]" sq d k sk v d msk] assms by auto

lemma MultiHeadAttention_forward_shape:
  assumes m: "mha_dims m e h d" and B: "0 < B"
    and q: "shape query = [B, sq, e]" and k: "shape key = [B, sk, e]"
    and v: "shape value = [B, sk, e]" and msk: "mask_fits msk [B, h, sq, sk]"
  shows "yields_shape (MultiHeadAttention_forward m query key value msk) [B, sq, e]"
proof -
  from m have nh: "num_heads m = int h" and hd: "head_dim m = int d" and e: "e = h * d"
    and h: "0 < h" and d: "0 < d"
    and lq: "linear_dims (query_linear m) e e" and lk: "linear_dims (key_linear m) e e"
    and lv: "linear_dims (value_linear m) e e" and lo: "linear_dims (mha_fc_out m) e e"
    by (auto simp: mha_dims_def)
  have bs: "size_dim query 0 = Inr B"
    by (simp add: size_dim_def norm_dim_def q)
  have split: "yields_shape
      (and_then (view [int B, - 1, int h, int d] y) (transpose_dims 1 2)) [B, h, s, d]"
    if "shape y = [B, s, e]" for y :: "real tensor" and s
    using that B h d
    by (intro yields_shape_bind[OF view_split_heads] transpose_1_2_shape) (simp_all add: e)
  have lin: "yields_shape (Linear_forward l x) [B, s, e]"
    if "linear_dims l e e" "shape x = [B, s, e]" for l x s
    using Linear_forward_shape[OF that(1), of x "[B, s]"] that(2) by simp
  show ?thesis
    unfolding MultiHeadAttention_forward_def bs and_then_Inr nh hd
  proof (intro yields_shape_bind[OF lin[OF lq q]] yields_shape_bind[OF lin[OF lk k]]
      yields_shape_bind[OF lin[OF lv v]] yields_shape_bind[OF split])
    fix ql kl vl qh kh vh :: "real tensor"
    assume qh: "shape qh = [B, h, sq, d]" and kh: "shape kh = [B, h, sk, d]"
      and vh: "shape vh = [B, h, sk, d]"
    from attention_forward_shape[OF qh kh vh msk] obtain outp w
      where run: "ScaledDotProductAttention_forward qh kh vh msk = Inr (outp, w)"
        and os: "shape outp = [B, h, sq, d]"
      by blast
    have merged: "yields_shape
        (and_then (transpose_dims 1 2 outp) (\<lambda>a.
           and_then (view [int B, - 1, int h * int d] a) (Linear_forward (mha_fc_out m))))
        [B, sq, e]"
    proof (intro yields_shape_bind[OF transpose_1_2_shape[OF os]] yields_shape_bind)
      fix a :: "real tensor" assume "shape a = [B, sq, h, d]"
      then show "yields_shape (view [int B, - 1, int h * int d] a) [B, sq, h * d]"
        using B h d by (intro view_merge_heads)
    next
      fix a :: "real tensor" assume "shape a = [B, sq, h * d]"
      then show "yields_shape (Linear_forward (mha_fc_out m) a) [B, sq, e]"
        using lin[OF lo, of a sq] by (simp add: e)
    qed
    show "yields_shape
        (and_then (ScaledDotProductAttention_forward qh kh vh msk)
          (\<lambda>(attention_output, weights).
              and_then (transpose_dims 1 2 attention_output)
               (\<lambda>a. and_then (view [int B, - 1, int h * int d] a)
                      (Linear_forward (mha_fc_out m)))))
        [B, sq, e]"
      using merged by (simp add: run)
  qed (simp_all)
qed

lemma FeedForward_forward_shape:
  assumes "linear_dims (linear1 f) e hid" and "linear_dims (linear2 f) hid e"
    and "shape x = pre @ [e]"
  shows "yields_shape (FeedForward_forward f tr keep x) (pre @ [e])"
  unfolding FeedForward_forward_def
  by (intro yields_shape_bind[OF Linear_forward_shape[OF assms(1,3)]]
      Linear_forward_shape[OF assms(2)]) simp

lemma TransformerBlock_forward_shape:
  assumes blk: "block_dims blk e h" and B: "0 < B"
    and q: "shape query = [B, sq, e]" and k: "shape key = [B, sk, e]"
    and v: "shape value = [B, sk, e]" and msk: "mask_fits msk [B, h, sq, sk]"
  shows "yields_shape (TransformerBlock_forward blk tr rng query key value msk) [B, sq, e]"
proof -
  from blk obtain d hid where m: "mha_dims (blk_attention blk) e h d"
    and n1: "normalized_size (norm1 blk) = e" and n2: "normalized_size (norm2 blk) = e"
    and l1: "linear_dims (linear1 (feed_forward blk)) e hid"
    and l2: "linear_dims (linear2 (feed_forward blk)) hid e"
    by (auto simp: block_dims_def)
  have norm: "yields_shape (LayerNorm_forward n x) [B, sq, e]"
    if "normalized_size n = e" "shape x = [B, sq, e]" for n x
    using LayerNorm_forward_shape[OF that(1), of x "[B, sq]"] that(2) by simp
  have ff: "yields_shape (FeedForward_forward (feed_forward blk) tr keep x) [B, sq, e]"
    if "shape x = [B, sq, e]" for keep x
    using FeedForward_forward_shape[OF l1 l2, of x "[B, sq]"] that by simp
  show ?thesis
    unfolding TransformerBlock_forward_def
    by (intro yields_shape_bind[OF MultiHeadAttention_forward_shape[OF m B q k v msk]]
        yields_shape_bind[OF tensor_add_shape] yields_shape_bind[OF norm]
        yields_shape_bind[OF ff] norm)
      (simp_all add: q n1 n2)
qed

lemma nn_Linear_dims:
  assumes "nn_Linear inits i out = Inr l"
  shows "0 \<le> i \<and> 0 \<le> out \<and> linear_dims l (nat i) (nat out) \<and>
         shape (lin_weight l) = [nat out, nat i] \<and> shape (lin_bias l) = [nat out]"
  using assms by (auto simp: nn_Linear_def linear_dims_def split: if_splits)

lemma MultiHeadAttention_init_dims:
  assumes "MultiHeadAttention_init inits e h = Inr m" and "0 < h" and "0 < e"
  shows "mha_dims m (nat e) (nat h) (nat (e div h))"
proof -
  from assms(1,2) have div: "e mod h = 0"
    by (auto simp: MultiHeadAttention_init_def split: if_splits)
  then have prod: "h * (e div h) = e" by (simp add: mod_0_imp_dvd)
  have dpos: "0 < e div h"
    using prod assms(2,3) by (metis mult_pos_pos not_less_iff_gr_or_eq zero_less_mult_pos)
  have natprod: "nat h * nat (e div h) = nat e"
    using prod assms(2) dpos by (metis nat_mult_distrib less_imp_le)
  from assms(1,2) div obtain q k v out
    where "nn_Linear inits e e = Inr q" "nn_Linear (\<lambda>k. inits (k + 2)) e e = Inr k"
      "nn_Linear (\<lambda>k. inits (k + 4)) e e = Inr v" "nn_Linear (\<lambda>k. inits (k + 6)) e e = Inr out"
      and m: "m = \<lparr>num_heads = h, head_dim = e div h, query_linear = q, key_linear = k,
                 value_linear = v, mha_fc_out = out\<rparr>"
    by (auto simp: MultiHeadAttention_init_def and_then_eq_Inr)
  then have "linear_dims q (nat e) (nat e)" "linear_dims k (nat e) (nat e)"
    "linear_dims v (nat e) (nat e)" "linear_dims out (nat e) (nat e)"
    by (auto dest: nn_Linear_dims)
  then show ?thesis
    using assms(2) dpos natprod by (simp add: mha_dims_def m)
qed

lemma TransformerBlock_init_dims:
  assumes "TransformerBlock_init inits e h ff p = Inr blk" and "0 < h" and "0 < e"
  shows "block_dims blk (nat e) (nat h)"
proof -
  from assms(1) obtain a n1 n2 f d
    where a: "MultiHeadAttention_init inits e h = Inr a"
      and n1: "nn_LayerNorm e = Inr n1" and n2: "nn_LayerNorm e = Inr n2"
      and f: "FeedForward_init (\<lambda>k. inits (k + 8)) e ff p = Inr f"
      and blk: "blk = \<lparr>blk_attention = a, norm1 = n1, norm2 = n2, feed_forward = f, blk_dropout = d\<rparr>"
    by (auto simp: TransformerBlock_init_def and_then_eq_Inr)
  from f obtain l1 l2 dp where l1: "nn_Linear (\<lambda>k. inits (k + 8)) e ff = Inr l1"
    and l2: "nn_Linear (\<lambda>k. inits (k + 8 + 2)) ff e = Inr l2"
    and fd: "f = \<lparr>linear1 = l1, ff_dropout = dp, linear2 = l2\<rparr>"
    by (auto simp: FeedForward_init_def and_then_eq_Inr)
  from n1 n2 have ns: "normalized_size n1 = nat e" "normalized_size n2 = nat e"
    by (auto simp: nn_LayerNorm_def split: if_splits)
  from nn_Linear_dims[OF l1] nn_Linear_dims[OF l2]
  have ld: "linear_dims l1 (nat e) (nat ff)" "linear_dims l2 (nat ff) (nat e)" by simp_all
  from MultiHeadAttention_init_dims[OF a assms(2,3)] ns ld show ?thesis
    by (auto simp: block_dims_def blk fd)
qed

lemma make_layers_dims:
  assumes "make_layers inits e h ff p n = Inr layers" and "0 < h" and "0 < e"
  shows "length layers = n \<and> (\<forall>blk\<in>set layers. block_dims blk (nat e) (nat h))"
  using assms(1)
proof (induction n arbitrary: inits layers)
  case 0
  then show ?case by simp
next
  case (Suc n)
  from Suc.prems obtain b bs where b: "TransformerBlock_init inits e h ff p = Inr b"
    and bs: "make_layers (\<lambda>k. inits (k + 12)) e h ff p n = Inr bs" and l: "layers = b # bs"
    by (auto simp: and_then_eq_Inr)
  from Suc.IH[OF bs] TransformerBlock_init_dims[OF b assms(2,3)] l show ?case by simp
qed

lemma Transformer_init_dims:
  assumes "Transformer_init inits sv tv e h n ff p = Inr T" and "0 < h" and "0 < e"
  shows "num_embeddings (src_embedding T) = nat sv \<and> embedding_dim (src_embedding T) = nat e \<and>
         num_embeddings (tgt_embedding T) = nat tv \<and> embedding_dim (tgt_embedding T) = nat e \<and>
         shape (pe (positional_encoding T)) = [1, 1000, nat e] \<and>
         length (encoder_layers T) = nat n \<and> length (decoder_layers T) = nat n \<and>
         (\<forall>blk\<in>set (encoder_layers T). block_dims blk (nat e) (nat h)) \<and>
         (\<forall>blk\<in>set (decoder_layers T). block_dims blk (nat e) (nat h)) \<and>
         linear_dims (fc_out T) (nat e) (nat tv) \<and> 0 \<le> tv \<and>
         shape (lin_weight (fc_out T)) = [nat tv, nat e] \<and> shape (lin_bias (fc_out T)) = [nat tv]"
proof -
  from assms(1) obtain se te pos enc dec out
    where se: "nn_Embedding (inits 0) sv e = Inr se" and te: "nn_Embedding (inits 1) tv e = Inr te"
      and pos: "PositionalEncoding_init e 1000 = Inr pos"
      and enc: "make_layers (\<lambda>k. inits (k + 2)) e h ff p (nat n) = Inr enc"
      and dec: "make_layers (\<lambda>k. inits (k + 2 + 12 * nat n)) e h ff p (nat n) = Inr dec"
      and out: "nn_Linear (\<lambda>k. inits (k + 2 + 24 * nat n)) e tv = Inr out"
      and T: "T = \<lparr>src_embedding = se, tgt_embedding = te, positional_encoding = pos,
              encoder_layers = enc, decoder_layers = dec, fc_out = out, training = True\<rparr>"
    by (auto simp: Transformer_init_def and_then_eq_Inr)
  from se te have emb: "num_embeddings se = nat sv" "embedding_dim se = nat e"
    "num_embeddings te = nat tv" "embedding_dim te = nat e"
    by (auto simp: nn_Embedding_def split: if_splits)
  from PositionalEncoding_init_table[OF pos] have ps: "shape (pe pos) = [1, 1000, nat e]"
    by simp
  from make_layers_dims[OF enc assms(2,3)] make_layers_dims[OF dec assms(2,3)]
    nn_Linear_dims[OF out] emb ps
  show ?thesis by (simp add: T)
qed

lemma encoder_stack_shape:
  assumes "\<forall>blk\<in>set layers. block_dims blk e h" and "0 < B" and "shape src = [B, s, e]"
    and "mask_fits msk [B, h, s, s]"
  shows "yields_shape (encoder_stack tr rng layers src msk) [B, s, e]"
  using assms(1,3)
proof (induction layers arbitrary: src rng)
  case Nil
  then show ?case by (simp add: yields_shape_def)
next
  case (Cons layer layers)
  have blk: "block_dims layer e h" using Cons.prems(1) by simp
  show ?case
    unfolding encoder_stack.simps
    using Cons.prems(1)
    by (intro yields_shape_bind[OF TransformerBlock_forward_shape[OF blk assms(2) Cons.prems(2)
            Cons.prems(2) Cons.prems(2) assms(4)]] Cons.IH) simp_all
qed

lemma decoder_stack_shape:
  assumes "\<forall>blk\<in>set layers. block_dims blk e h" and "0 < B" and "shape tgt = [B, st, e]"
    and "shape src = [B, ss, e]" and "mask_fits msk [B, h, st, ss]"
  shows "yields_shape (decoder_stack tr rng layers tgt src msk) [B, st, e]"
  using assms(1,3)
proof (induction layers arbitrary: tgt rng)
  case Nil
  then show ?case by (simp add: yields_shape_def)
next
  case (Cons layer layers)
  have blk: "block_dims layer e h" using Cons.prems(1) by simp
  show ?case
    unfolding decoder_stack.simps
    using Cons.prems(1)
    by (intro yields_shape_bind[OF TransformerBlock_forward_shape[OF blk assms(2) Cons.prems(2)
            assms(4) assms(4) assms(5)]] Cons.IH) simp_all
qed

text \<open>
  The representations between the layers: a stack that returns has passed through one
  representation per layer, each the result of the layer applied to the one before.
\<close>

lemma encoder_stack_trace:
  assumes "encoder_stack tr rng layers src msk = Inr enc"
  shows "\<exists>reps. length reps = Suc (length layers) \<and> reps ! 0 = src \<and>
           reps ! length layers = enc \<and>
           (\<forall>l<length layers.
              TransformerBlock_forward (layers ! l) tr (\<lambda>k. rng (k + 3 * l))
                (reps ! l) (reps ! l) (reps ! l) msk = Inr (reps ! Suc l))"
  using assms
proof (induction layers arbitrary: src rng)
  case Nil
  then show ?case by (intro exI[of _ "[src]"]) simp
next
  case (Cons layer layers)
  from Cons.prems obtain src'
    where step: "TransformerBlock_forward layer tr rng src src src msk = Inr src'"
      and rest: "encoder_stack tr (\<lambda>k. rng (k + 3)) layers src' msk = Inr enc"
    by (auto simp: and_then_eq_Inr)
  from Cons.IH[OF rest] obtain reps where len: "length reps = Suc (length layers)"
    and r0: "reps ! 0 = src'" and rl: "reps ! length layers = enc"
    and rs: "\<forall>l<length layers.
              TransformerBlock_forward (layers ! l) tr (\<lambda>k. rng (k + 3 * l + 3))
                (reps ! l) (reps ! l) (reps ! l) msk = Inr (reps ! Suc l)"
    by (auto simp: add.assoc)
  have "\<forall>l<length (layer # layers).
          TransformerBlock_forward ((layer # layers) ! l) tr (\<lambda>k. rng (k + 3 * l))
            ((src # reps) ! l) ((src # reps) ! l) ((src # reps) ! l) msk =
          Inr ((src # reps) ! Suc l)"
  proof (intro allI impI)
    fix l assume "l < length (layer # layers)"
    then show "TransformerBlock_forward ((layer # layers) ! l) tr (\<lambda>k. rng (k + 3 * l))
            ((src # reps) ! l) ((src # reps) ! l) ((src # reps) ! l) msk =
          Inr ((src # reps) ! Suc l)"
    proof (cases l)
      case 0
      with step r0 show ?thesis by simp
    next
      case (Suc l')
      have eq: "(\<lambda>k. rng (k + 3 * Suc l')) = (\<lambda>k. rng (k + 3 * l' + 3))"
        by (rule ext, rule arg_cong[of _ _ rng]) simp
      from Suc \<open>l < length (layer # layers)\<close> have "l' < length layers" by simp
      with rs show ?thesis unfolding Suc eq by simp
    qed
  qed
  then show ?case
    using len rl by (intro exI[of _ "src # reps"]) simp
qed

lemma decoder_stack_trace:
  assumes "decoder_stack tr rng layers tgt src msk = Inr dec"
  shows "\<exists>reps. length reps = Suc (length layers) \<and> reps ! 0 = tgt \<and>
           reps ! length layers = dec \<and>
           (\<forall>l<length layers.
              TransformerBlock_forward (layers ! l) tr (\<lambda>k. rng (k + 3 * l))
                (reps ! l) src src msk = Inr (reps ! Suc l))"
  using assms
proof (induction layers arbitrary: tgt rng)
  case Nil
  then show ?case by (intro exI[of _ "[tgt]"]) simp
next
  case (Cons layer layers)
  from Cons.prems obtain tgt'
    where step: "TransformerBlock_forward layer tr rng tgt src src msk = Inr tgt'"
      and rest: "decoder_stack tr (\<lambda>k. rng (k + 3)) layers tgt' src msk = Inr dec"
    by (auto simp: and_then_eq_Inr)
  from Cons.IH[OF rest] obtain reps where len: "length reps = Suc (length layers)"
    and r0: "reps ! 0 = tgt'" and rl: "reps ! length layers = dec"
    and rs: "\<forall>l<length layers.
              TransformerBlock_forward (layers ! l) tr (\<lambda>k. rng (k + 3 * l + 3))
                (reps ! l) src src msk = Inr (reps ! Suc l)"
    by (auto simp: add.assoc)
  have "\<forall>l<length (layer # layers).
          TransformerBlock_forward ((layer # layers) ! l) tr (\<lambda>k. rng (k + 3 * l))
            ((tgt # reps) ! l) src src msk = Inr ((tgt # reps) ! Suc l)"
  proof (intro allI impI)
    fix l assume "l < length (layer # layers)"
    then show "TransformerBlock_forward ((layer # layers) ! l) tr (\<lambda>k. rng (k + 3 * l))
            ((tgt # reps) ! l) src src msk = Inr ((tgt # reps) ! Suc l)"
    proof (cases l)
      case 0
      with step r0 show ?thesis by simp
    next
      case (Suc l')
      have eq: "(\<lambda>k. rng (k + 3 * Suc l')) = (\<lambda>k. rng (k + 3 * l' + 3))"
        by (rule ext, rule arg_cong[of _ _ rng]) simp
      from Suc \<open>l < length (layer # layers)\<close> have "l' < length layers" by simp
      with rs show ?thesis unfolding Suc eq by simp
    qed
  qed
  then show ?case
    using len rl by (intro exI[of _ "tgt # reps"]) simp
qed

section \<open>Properties of the Transformer\<close>

lemma Linear_forward_elem:
  assumes "linear_dims l i out" and "shape x = pre @ [i]" and "Linear_forward l x = Inr y"
  shows "elem y (b @ [v]) =
           (\<Sum>k<i. elem x (b @ [k]) * elem (lin_weight l) [v, k]) + elem (lin_bias l) [v]"
  using assms by (auto simp: Linear_forward_def linear_dims_def sum_list_upt)

lemma make_layers_ok:
  assumes "0 < h" and "0 \<le> e" and "e mod h = 0" and "0 \<le> ff" and "0 \<le> p" and "p \<le> 1"
  shows "\<exists>layers. make_layers inits e h ff p n = Inr layers"
proof (induction n arbitrary: inits)
  case 0
  show ?case by simp
next
  case (Suc n)
  have "\<exists>blk. TransformerBlock_init inits e h ff p = Inr blk"
    using assms
    by (simp add: TransformerBlock_init_def MultiHeadAttention_init_def nn_Linear_def
        nn_LayerNorm_def FeedForward_init_def nn_Dropout_def)
  with Suc[of "\<lambda>k. inits (k + 12)"] show ?case by auto
qed

lemma Transformer_init_ok:
  assumes "0 \<le> sv" and "0 \<le> tv" and "0 < h" and "0 \<le> e" and "even e" and "e mod h = 0"
    and "0 \<le> ff" and "0 \<le> p" and "p \<le> 1"
  shows "\<exists>T. Transformer_init inits sv tv e h n ff p = Inr T"
proof -
  from PositionalEncoding_init_ok[OF assms(4) _ assms(5), of 1000]
  obtain P where P: "PositionalEncoding_init e 1000 = Inr P" by auto
  from make_layers_ok[OF assms(3,4,6,7,8,9)]
  obtain enc where enc: "make_layers (\<lambda>k. inits (k + 2)) e h ff p (nat n) = Inr enc" by blast
  from make_layers_ok[OF assms(3,4,6,7,8,9)]
  obtain dec where dec: "make_layers (\<lambda>k. inits (k + 2 + 12 * nat n)) e h ff p (nat n) = Inr dec"
    by blast
  show ?thesis
    unfolding Transformer_init_def P enc dec
    using assms(1,2,4) by (simp add: nn_Embedding_def nn_Linear_def)
qed

lemma embed_and_encode_shape:
  assumes "num_embeddings emb = v" and "embedding_dim emb = e"
    and "shape (pe P) = [1, 1000, e]" and "shape ids = [B, L]" and "L \<le> 1000"
    and "\<forall>idx. valid_index [B, L] idx \<longrightarrow> 0 \<le> elem ids idx \<and> elem ids idx < int v"
  shows "yields_shape (and_then (Embedding_forward emb ids) (PositionalEncoding_forward P))
           [B, L, e]"
proof (rule yields_shape_bind)
  show "yields_shape (Embedding_forward emb ids) [B, L, e]"
    using Embedding_forward_shape[of ids emb] assms(1,2,4,6) by simp
next
  fix y :: "real tensor" assume "shape y = [B, L, e]"
  from PositionalEncoding_forward_regular[OF assms(3) this assms(5)]
  show "yields_shape (PositionalEncoding_forward P y) [B, L, e]"
    by (auto simp: yields_shape_def)
qed



section \<open>Properties of training\<close>

lemma all_but_last_matrix:
  assumes "shape t = [B, L]"
  shows "\<exists>u. all_but_last t = Inr u \<and> shape u = [B, L - 1] \<and> (\<forall>idx. elem u idx = elem t idx)"
  using assms by (simp add: all_but_last_def)

lemma all_but_first_matrix:
  assumes "shape t = [B, L]"
  shows "\<exists>u. all_but_first t = Inr u \<and> shape u = [B, L - 1] \<and>
           (\<forall>b p. elem u [b, p] = elem t [b, Suc p])"
  using assms by (simp add: all_but_first_def)

lemma and_thenE:
  assumes "and_then m f = Inr y"
  obtains x where "m = Inr x" and "f x = Inr y"
  using assms by (auto simp: and_then_eq_Inr)

lemma train_batch_returns:
  assumes "train_batch ops crit st (src, tgt) = Inr st'"
  shows "\<exists>tgt_input tgt_output outputs v flat_outputs flat_targets loss.
           all_but_last tgt = Inr tgt_input \<and> all_but_first tgt = Inr tgt_output \<and>
           call ops (cur_model st) (passes st) src tgt_input = Inr outputs \<and>
           size_dim outputs (- 1) = Inr v \<and> view [- 1, int v] outputs = Inr flat_outputs \<and>
           view [- 1] tgt_output = Inr flat_targets \<and>
           crit flat_outputs flat_targets = Inr loss \<and>
           (cur_optimizer st', cur_model st') =
             optimizer_step ops (cur_optimizer st)
               (backward ops (cur_model st) (passes st) src tgt_input tgt_output) (cur_model st) \<and>
           passes st' = Suc (passes st) \<and>
           total_loss st' = nan_add (total_loss st) (item ops loss) \<and>
           printed st' = printed st"
  using assms unfolding train_batch_def prod.case
  by (elim and_thenE) (auto simp: Let_def split: prod.splits)

lemma train_batches_passes:
  assumes "train_batches ops crit st batches = (None, st')"
  shows "passes st' = passes st + length batches"
  using assms
proof (induction batches arbitrary: st)
  case Nil
  then show ?case by simp
next
  case (Cons batch batches)
  then obtain st1 where 1: "train_batch ops crit st batch = Inr st1"
    and 2: "train_batches ops crit st1 batches = (None, st')"
    by (auto split: sum.splits)
  obtain src tgt where b: "batch = (src, tgt)" by (cases batch)
  from train_batch_returns[OF 1[unfolded b]] have "passes st1 = Suc (passes st)" by blast
  with Cons.IH[OF 2] show ?case by simp
qed

lemma train_epochs_passes:
  assumes "train_epochs ops crit dataloader st k = (None, st')"
  shows "passes st' = passes st + k * length dataloader"
  using assms
proof (induction k arbitrary: st)
  case 0
  then show ?case by simp
next
  case (Suc k)
  then obtain st1 where 1: "train_batches ops crit (st\<lparr>total_loss := Some 0\<rparr>) dataloader = (None, st1)"
    and 2: "train_epochs ops crit dataloader
              (st1\<lparr>printed := printed st1 @
                 [map_option (\<lambda>x. x / real (length dataloader)) (total_loss st1)]\<rparr>) k = (None, st')"
    by (auto split: prod.splits option.splits if_splits)
  from train_batches_passes[OF 1] Suc.IH[OF 2] show ?case by simp
qed

lemma CrossEntropyLoss_ignores:
  assumes s: "shape input = [N, C]" and s': "shape input' = [N, C]" and t: "shape target = [N]"
    and same: "\<forall>n<N. elem target [n] \<noteq> i \<longrightarrow> (\<forall>c<C. elem input [n, c] = elem input' [n, c])"
  shows "CrossEntropyLoss i input target = CrossEntropyLoss i input' target"
proof -
  let ?rows = "filter (\<lambda>n. elem target [n] \<noteq> i) [0..<N]"
  let ?bad = "list_ex (\<lambda>n. elem target [n] < 0 \<or> int C \<le> elem target [n]) ?rows"
  have summand: "ln (\<Sum>c\<leftarrow>[0..<C]. exp (elem input [n, c])) - elem input [n, nat (elem target [n])] =
      ln (\<Sum>c\<leftarrow>[0..<C]. exp (elem input' [n, c])) - elem input' [n, nat (elem target [n])]"
    if n: "n \<in> set ?rows" and ok: "\<not> ?bad" for n
  proof -
    from n have nN: "n < N" and ni: "elem target [n] \<noteq> i" by auto
    from ok n have "0 \<le> elem target [n]" "elem target [n] < int C"
      by (auto simp: list_ex_iff)
    then have tc: "nat (elem target [n]) < C" by simp
    have eq: "elem input [n, c] = elem input' [n, c]" if "c < C" for c
      using same nN ni that by blast
    have "(\<Sum>c\<leftarrow>[0..<C]. exp (elem input [n, c])) = (\<Sum>c\<leftarrow>[0..<C]. exp (elem input' [n, c]))"
      by (rule arg_cong[of _ _ sum_list], rule map_cong) (simp_all add: eq)
    then show ?thesis by (simp only: eq[OF tc])
  qed
  show ?thesis
  proof (cases ?bad)
    case True
    then show ?thesis by (simp add: CrossEntropyLoss_def s s' t Let_def)
  next
    case False
    have sums: "(\<Sum>n\<leftarrow>?rows. ln (\<Sum>c\<leftarrow>[0..<C]. exp (elem input [n, c])) - elem input [n, nat (elem target [n])]) =
      (\<Sum>n\<leftarrow>?rows. ln (\<Sum>c\<leftarrow>[0..<C]. exp (elem input' [n, c])) - elem input' [n, nat (elem target [n])])"
      by (rule arg_cong[of _ _ sum_list], rule map_cong[OF refl]) (rule summand[OF _ False])
    show ?thesis
      by (simp add: CrossEntropyLoss_def s s' t Let_def sums del: set_filter)
  qed
qed

lemma CrossEntropyLoss_mean:
  assumes s: "shape input = [N, C]" and t: "shape target = [N]"
    and ok: "\<forall>n<N. elem target [n] \<noteq> i \<longrightarrow> 0 \<le> elem target [n] \<and> elem target [n] < int C"
    and some: "\<exists>n<N. elem target [n] \<noteq> i"
  shows "CrossEntropyLoss i input target =
           Inr (Some ((\<Sum>n\<in>{n. n < N \<and> elem target [n] \<noteq> i}.
                         ln (\<Sum>c<C. exp (elem input [n, c])) - elem input [n, nat (elem target [n])]) /
                      real (card {n. n < N \<and> elem target [n] \<noteq> i})))"
proof -
  let ?rows = "filter (\<lambda>n. elem target [n] \<noteq> i) [0..<N]"
  have set_rows: "set ?rows = {n. n < N \<and> elem target [n] \<noteq> i}" by auto
  have dist: "distinct ?rows" by simp
  have notbad: "\<not> list_ex (\<lambda>n. elem target [n] < 0 \<or> int C \<le> elem target [n]) ?rows"
    using ok by (auto simp: list_ex_iff)
  have ne: "?rows \<noteq> []" using some by (auto simp: filter_empty_conv)
  have len: "length ?rows = card {n. n < N \<and> elem target [n] \<noteq> i}"
    using distinct_card[OF dist] set_rows by simp
  have sum: "(\<Sum>n\<leftarrow>?rows. f n) = (\<Sum>n\<in>{n. n < N \<and> elem target [n] \<noteq> i}. f n)" for f :: "nat \<Rightarrow> real"
    using sum_list_distinct_conv_sum_set[OF dist, of f] set_rows by simp
  show ?thesis
    using notbad ne
    by (simp add: CrossEntropyLoss_def s t Let_def sum len sum_list_upt del: set_filter)
qed



section \<open>A training step on a batch without samples\<close>

lemma view_no_entries:
  assumes "numel (shape x) = 0"
  shows "view (0 # - 1 # sizes) x = Inl RuntimeError"
  using assms by (simp add: view_def Let_def)

lemma MultiHeadAttention_forward_no_samples:
  assumes "linear_dims (query_linear m) e e" and "linear_dims (key_linear m) e e"
    and "linear_dims (value_linear m) e e"
    and "shape query = [0, sq, e]" and "shape key = [0, sk, e]" and "shape value = [0, sk, e]"
  shows "MultiHeadAttention_forward m query key value msk = Inl RuntimeError"
proof -
  have bs: "size_dim query 0 = Inr 0"
    by (simp add: size_dim_def norm_dim_def assms(4))
  from Linear_forward_shape[OF assms(1), of query "[0, sq]"] assms(4)
  obtain q where q: "Linear_forward (query_linear m) query = Inr q" and qs: "shape q = [0, sq, e]"
    by (auto simp: yields_shape_def)
  from Linear_forward_shape[OF assms(2), of key "[0, sk]"] assms(5)
  obtain k where k: "Linear_forward (key_linear m) key = Inr k"
    by (auto simp: yields_shape_def)
  from Linear_forward_shape[OF assms(3), of "value" "[0, sk]"] assms(6)
  obtain v where v: "Linear_forward (value_linear m) value = Inr v"
    by (auto simp: yields_shape_def)
  have "view [int 0, - 1, num_heads m, head_dim m] q = Inl RuntimeError"
    using view_no_entries[of q "[num_heads m, head_dim m]"] by (simp add: qs numel_def)
  then show ?thesis
    by (simp add: MultiHeadAttention_forward_def bs q k v)
qed

lemma embed_and_encode_no_samples:
  assumes "embedding_dim emb = e" and "shape (pe P) = [1, 1000, e]" and "shape ids = [0, L]"
  shows "and_then (Embedding_forward emb ids) (PositionalEncoding_forward P) = Inl RuntimeError \<or>
         yields_shape (and_then (Embedding_forward emb ids) (PositionalEncoding_forward P))
           [0, L, e]"
proof -
  have "indices (shape ids) = []" by (simp add: assms(3))
  then obtain x where x: "Embedding_forward emb ids = Inr x" and xs: "shape x = [0, L, e]"
    by (simp add: Embedding_forward_def assms(1,3))
  have n: "size_dim x 1 = Inr L" by (simp add: size_dim_def norm_dim_def xs)
  have sl: "shape (slice_positions L (pe P)) = [1, min L 1000, e]"
    by (simp add: slice_positions_def assms(2))
  show ?thesis
    by (auto simp: x PositionalEncoding_forward_def n tensor_add_def xs sl broadcast_shapes_3
        yields_shape_def)
qed

lemma Transformer_forward_no_samples:
  assumes init: "Transformer_init inits sv tv e h n ff p = Inr T0"
    and T: "T = T0\<lparr>training := tr\<rparr>" and h: "0 < h" and e: "0 < e" and n: "1 \<le> n"
    and src: "shape src = [0, ls]" and tgt: "shape tgt = [0, lt]"
  shows "Transformer_forward T rng src tgt src_mask tgt_mask = Inl RuntimeError"
proof -
  from Transformer_init_dims[OF init h e]
  have se: "embedding_dim (src_embedding T) = nat e"
    and te: "embedding_dim (tgt_embedding T) = nat e"
    and ps: "shape (pe (positional_encoding T)) = [1, 1000, nat e]"
    and len: "length (encoder_layers T) = nat n"
    and enc_dims: "\<forall>blk\<in>set (encoder_layers T). block_dims blk (nat e) (nat h)"
    by (simp_all add: T)
  from len n obtain layer layers where layers: "encoder_layers T = layer # layers"
    by (cases "encoder_layers T") auto
  with enc_dims obtain d where "mha_dims (blk_attention layer) (nat e) (nat h) d"
    by (auto simp: block_dims_def)
  then have lin: "linear_dims (query_linear (blk_attention layer)) (nat e) (nat e)"
    "linear_dims (key_linear (blk_attention layer)) (nat e) (nat e)"
    "linear_dims (value_linear (blk_attention layer)) (nat e) (nat e)"
    by (simp_all add: mha_dims_def)
  show ?thesis
  proof (cases "and_then (Embedding_forward (src_embedding T) src)
        (PositionalEncoding_forward (positional_encoding T)) = Inl RuntimeError")
    case True
    then show ?thesis by (simp add: Transformer_forward_def)
  next
    case False
    with embed_and_encode_no_samples[OF se ps src] obtain src0
      where src0: "and_then (Embedding_forward (src_embedding T) src)
          (PositionalEncoding_forward (positional_encoding T)) = Inr src0"
        and src0s: "shape src0 = [0, ls, nat e]"
      by (auto simp: yields_shape_def)
    show ?thesis
    proof (cases "and_then (Embedding_forward (tgt_embedding T) tgt)
        (PositionalEncoding_forward (positional_encoding T)) = Inl RuntimeError")
      case True
      then show ?thesis by (simp add: Transformer_forward_def src0)
    next
      case False
      with embed_and_encode_no_samples[OF te ps tgt] obtain tgt0
        where tgt0: "and_then (Embedding_forward (tgt_embedding T) tgt)
            (PositionalEncoding_forward (positional_encoding T)) = Inr tgt0"
        by (auto simp: yields_shape_def)
      have "MultiHeadAttention_forward (blk_attention layer) src0 src0 src0 src_mask =
          Inl RuntimeError"
        by (rule MultiHeadAttention_forward_no_samples[OF lin src0s src0s src0s])
      then have "encoder_stack (training T) rng (encoder_layers T) src0 src_mask = Inl RuntimeError"
        by (simp add: layers TransformerBlock_forward_def)
      then show ?thesis by (simp add: Transformer_forward_def src0 tgt0)
    qed
  qed
qed

lemma train_batch_no_samples:
  assumes init: "Transformer_init inits sv tv e h n ff p = Inr T0"
    and h: "0 < h" and e: "0 < e" and n: "1 \<le> n"
    and st: "cur_model st = T0\<lparr>training := tr\<rparr>"
    and src: "shape src = [0, ls]" and tgt: "shape tgt = [0, lt]"
  shows "train_batch (transformer_ops randomness grads step) crit st (src, tgt) = Inl RuntimeError"
proof -
  from all_but_last_matrix[OF tgt] obtain tgt_input
    where ti: "all_but_last tgt = Inr tgt_input" and tis: "shape tgt_input = [0, lt - 1]"
    by blast
  from all_but_first_matrix[OF tgt] obtain tgt_output
    where to: "all_but_first tgt = Inr tgt_output"
    by blast
  have "Transformer_forward (cur_model st) (randomness (passes st)) src tgt_input None None =
      Inl RuntimeError"
    by (rule Transformer_forward_no_samples[OF init st h e n src tis])
  then show ?thesis
    by (simp add: train_batch_def ti to transformer_ops_def)
qed

text \<open>
  Claim C9, as stated, fails: a training step of the Transformer on a batch without samples
  raises. With the configuration of the main workflow and a batch of shape \<open>(0, 50)\<close>, the
  pass of the loop body ends in a \<open>RuntimeError\<close>.
\<close>

theorem training_step_empty_batch_counterexample:
  "(case Transformer_init (\<lambda>k idx. 0) 30000 30000 256 8 6 2048 (1 / 10) of
      Inl err \<Rightarrow> False
    | Inr T \<Rightarrow>
        train_batch (transformer_ops (\<lambda>n k idx. True) (\<lambda>T n src tgt_in tgt_out. ()) (\<lambda>opt g T. (opt, T)))
          criterion
          \<lparr>cur_model = T\<lparr>training := True\<rparr>, cur_optimizer = (), passes = 0, total_loss = Some 0,
           printed = []\<rparr>
          empty_batch = Inl RuntimeError)"
proof -
  obtain T0 where init: "Transformer_init (\<lambda>k idx. 0) 30000 30000 256 8 6 2048 (1 / 10) = Inr T0"
    using Transformer_init_ok[of 30000 30000 8 256 2048 "1 / 10" "\<lambda>k idx. 0" 6] by auto
  let ?st = "\<lparr>cur_model = T0\<lparr>training := True\<rparr>, cur_optimizer = (), passes = 0, total_loss = Some 0,
           printed = []\<rparr>"
  have "train_batch (transformer_ops (\<lambda>n k idx. True) (\<lambda>T n src tgt_in tgt_out. ()) (\<lambda>opt g T. (opt, T)))
          criterion ?st
          (\<lparr>shape = [0, 50], elem = (\<lambda>idx. 0)\<rparr>, \<lparr>shape = [0, 50], elem = (\<lambda>idx. 0)\<rparr>) =
        Inl RuntimeError"
    by (rule train_batch_no_samples[OF init, where tr = True]) simp_all
  then show ?thesis by (simp add: init empty_batch_def)
qed

text \<open>
  Claim C9, amended. A training step of a Transformer with at least one layer on a batch
  with zero samples raises \<open>RuntimeError\<close> in the forward pass: the first attention layer
  cannot infer the \<open>-1\<close> dimension when it reshapes a tensor without entries into heads (or,
  for sequences longer than the positional table, the positional encoding fails before).
  The optimizer step is not reached: the run of \<open>train_model\<close> stops with the model in
  training mode and the parameters, the optimizer and the pass count as they were.
\<close>

theorem training_step_empty_batch:
  assumes "Transformer_init inits sv tv e h n ff p = Inr T0"
    and "0 < h" and "0 < e" and "1 \<le> n" and "shape src = [0, ls]" and "shape tgt = [0, lt]"
  shows "(\<forall>st tr. cur_model st = T0\<lparr>training := tr\<rparr> \<longrightarrow>
            train_batch (transformer_ops randomness grads step) crit st (src, tgt) =
              Inl RuntimeError \<and>
            train_batches (transformer_ops randomness grads step) crit st ((src, tgt) # batches) =
              (Some RuntimeError, st)) \<and>
         (1 \<le> num_epochs \<longrightarrow>
            train_model (transformer_ops randomness grads step) T0 ((src, tgt) # batches) opt crit
                num_epochs =
              (Some RuntimeError,
               \<lparr>cur_model = T0\<lparr>training := True\<rparr>, cur_optimizer = opt, passes = 0, total_loss = Some 0,
                printed = []\<rparr>))"
proof (intro conjI allI impI)
  fix st :: "(Transformer, 'a) train_state" and tr
  assume st: "cur_model st = T0\<lparr>training := tr\<rparr>"
  show "train_batch (transformer_ops randomness grads step) crit st (src, tgt) = Inl RuntimeError"
    by (rule train_batch_no_samples[OF assms(1-4) st assms(5,6)])
  then show "train_batches (transformer_ops randomness grads step) crit st ((src, tgt) # batches) =
      (Some RuntimeError, st)"
    by simp
next
  assume ep: "1 \<le> num_epochs"
  let ?st = "\<lparr>cur_model = T0\<lparr>training := True\<rparr>, cur_optimizer = opt, passes = 0, total_loss = Some 0,
      printed = []\<rparr>"
  have "train_batch (transformer_ops randomness grads step) crit (?st\<lparr>total_loss := Some 0\<rparr>)
      (src, tgt) = Inl RuntimeError"
    by (rule train_batch_no_samples[OF assms(1-4) _ assms(5,6), where tr = True]) simp
  moreover from ep obtain k where "nat num_epochs = Suc k"
    by (cases "nat num_epochs") auto
  ultimately show "train_model (transformer_ops randomness grads step) T0 ((src, tgt) # batches)
      opt crit num_epochs = (Some RuntimeError, ?st)"
    by (simp add: train_model_def transformer_ops_def)
qed

theorem training_step_empty_batch_witness:
  "(0::int) < 8 \<and> (0::int) < 256 \<and> (1::int) \<le> 6 \<and>
   shape (fst empty_batch) = [0, 50] \<and> shape (snd empty_batch) = [0, 50] \<and> (1::int) \<le> 10 \<and>
   (\<exists>T0. Transformer_init (\<lambda>k idx. 0) 30000 30000 256 8 6 2048 (1 / 10) = Inr T0 \<and>
      train_model (transformer_ops (\<lambda>n k idx. True) (\<lambda>T n src tgt_in tgt_out. ()) (\<lambda>opt g T. (opt, T)))
        T0 [empty_batch] () criterion 10 =
      (Some RuntimeError,
       \<lparr>cur_model = T0\<lparr>training := True\<rparr>, cur_optimizer = (), passes = 0, total_loss = Some 0,
        printed = []\<rparr>))"
proof -
  obtain T0 where init: "Transformer_init (\<lambda>k idx. 0) 30000 30000 256 8 6 2048 (1 / 10) = Inr T0"
    using Transformer_init_ok[of 30000 30000 8 256 2048 "1 / 10" "\<lambda>k idx. 0" 6] by auto
  have h: "(0::int) < 8" and e: "(0::int) < 256" and n: "(1::int) \<le> 6" by simp_all
  have s: "shape (fst empty_batch) = [0, 50]" and t: "shape (snd empty_batch) = [0, 50]"
    by (simp_all add: empty_batch_def)
  have ep: "(1::int) \<le> 10" by simp
  from training_step_empty_batch[OF init h e n s t, THEN conjunct2, rule_format, OF ep,
      of "\<lambda>n k idx. True" "\<lambda>T n src tgt_in tgt_out. ()" "\<lambda>opt g T. (opt, T)" "[]" "()" criterion]
  have "train_model (transformer_ops (\<lambda>n k idx. True) (\<lambda>T n src tgt_in tgt_out. ()) (\<lambda>opt g T. (opt, T)))
        T0 [empty_batch] () criterion 10 =
      (Some RuntimeError,
       \<lparr>cur_model = T0\<lparr>training := True\<rparr>, cur_optimizer = (), passes = 0, total_loss = Some 0,
        printed = []\<rparr>)"
    by simp
  with init h e n s t ep show ?thesis by blast
qed

end
